theory Spec2Isabelle
  imports Complex_Main
begin

section \<open>The product catalogue of NIBRAS-RENDER-BACKEND\<close>

text \<open>
  A shallow embedding of the Mongoose model \<^verbatim>\<open>Product\<close> (the second module of
  \<^verbatim>\<open>src/middleware/admin.js\<close>) and of the route handlers of
  \<^verbatim>\<open>src/routes/products.js\<close>.

  JavaScript numbers that hold counts, dates and page numbers are \<open>int\<close>; prices, rating
  averages and text scores are \<open>rat\<close>. Strings are \<open>string\<close>. The document store is the
  list of the stored products. A thrown error is a value of \<open>save_error\<close>, an HTTP
  answer a value of \<open>response\<close>.
\<close>

subsection \<open>The schema\<close>

record image =
  url :: string
  alt :: string
  isPrimary :: bool

record rating =
  average :: rat
  count :: int

record stats =
  views :: int
  downloads :: int
  sales :: int
  rating :: rating

text \<open>
  The schema's paths that the handlers, the hooks, the queries or the sort read. The
  other paths of the schema (\<^verbatim>\<open>shortDescription\<close>, \<^verbatim>\<open>originalPrice\<close>, \<^verbatim>\<open>tags\<close>,
  \<^verbatim>\<open>files\<close>, \<^verbatim>\<open>seo\<close>, ...) are carried through by every operation like
  \<open>description\<close> is and are left out. \<open>oid\<close> is the path \<^verbatim>\<open>_id\<close>, in its
  24 digit lower case hexadecimal form.

  \<open>createdBy\<close> is a reference to a user: the user's id in a stored document and in a
  document in memory (a \<open>product\<close>), the user itself once the document is populated
  (a \<open>populated\<close>).
\<close>

record 'c product_of =
  oid :: string
  name :: string
  slug :: string
  description :: string
  price :: rat
  category :: string
  images :: "image list"
  isActive :: bool
  isFeatured :: bool
  stats :: stats
  createdBy :: 'c
  updatedBy :: "string option"
  createdAt :: int

type_synonym product = "string product_of"

text \<open>
  What \<^verbatim>\<open>populate('createdBy', 'name')\<close> and \<^verbatim>\<open>populate('createdBy', 'name avatar')\<close>
  put in the place of the id: the user's \<^verbatim>\<open>_id\<close> and \<^verbatim>\<open>name\<close> (the user schema has no path
  \<^verbatim>\<open>avatar\<close>, its avatar is \<^verbatim>\<open>profile.avatar\<close>), or \<^verbatim>\<open>null\<close> when there is no user of the id.
\<close>

record creator =
  creator_id :: string
  creator_name :: string

type_synonym populated = "creator option product_of"

definition categories :: "string list" where
  "categories = [''templates'', ''components'', ''themes'', ''plugins'', ''courses'',
     ''ebooks'', ''graphics'', ''other'']"

subsection \<open>What the libraries and the store compute\<close>

text \<open>
  The functions of \<^verbatim>\<open>slugify\<close>, \<^verbatim>\<open>validator\<close>, the JavaScript runtime and MongoDB
  that the source calls and whose code is not part of the repository are parameters:
  \<^item> \<open>slugify\<close>: \<^verbatim>\<open>slugify(name, {lower: true, strict: true})\<close>;
  \<^item> \<open>isFloat\<close>: \<^verbatim>\<open>isFloat({min: 0})\<close> of validator, on the query string's text;
  \<^item> \<open>parseFloat\<close>: the runtime's \<^verbatim>\<open>parseFloat\<close>;
  \<^item> \<open>textMatch\<close>, \<open>textScore\<close>: whether a document matches \<^verbatim>\<open>{$text: {$search: s}}\<close>
    under the schema's text index, and its \<^verbatim>\<open>{$meta: 'textScore'}\<close>;
  \<^item> \<open>castObjectId\<close>: the cast of a string that is not 24 hexadecimal digits to an
    ObjectId, \<open>None\<close> when Mongoose raises a CastError;
  \<^item> \<open>userName\<close>: the \<^verbatim>\<open>name\<close> of the user of an id in the collection of the users,
    which no handler of the products writes, \<open>None\<close> when there is no user of the id.
\<close>

record env =
  slugify :: "string \<Rightarrow> string"
  isFloat :: "string \<Rightarrow> bool"
  parseFloat :: "string \<Rightarrow> rat"
  textMatch :: "string \<Rightarrow> product \<Rightarrow> bool"
  textScore :: "string \<Rightarrow> product \<Rightarrow> rat"
  castObjectId :: "string \<Rightarrow> string option"
  userName :: "string \<Rightarrow> string option"

text \<open>\<^verbatim>\<open>await product.populate('createdBy', ...)\<close>: the document as the answer shows it.\<close>

definition populate :: "env \<Rightarrow> product \<Rightarrow> populated" where
  "populate env p =
     \<lparr>oid = oid p, name = name p, slug = slug p, description = description p,
      price = price p, category = category p, images = images p, isActive = isActive p,
      isFeatured = isFeatured p, stats = stats p,
      createdBy = map_option (\<lambda>n. \<lparr>creator_id = createdBy p, creator_name = n\<rparr>)
                    (userName env (createdBy p)),
      updatedBy = updatedBy p, createdAt = createdAt p\<rparr>"

subsection \<open>The pre-save hooks\<close>

text \<open>
  \<^verbatim>\<open>
  const primaryImages = this.images.filter(img => img.isPrimary);
  if (primaryImages.length > 1) {
    // Keep only the first primary image
    this.images.forEach((img, index) => { if (index > 0) img.isPrimary = false; });
  } else if (primaryImages.length === 0 && this.images.length > 0) {
    // Set first image as primary if none is set
    this.images[0].isPrimary = true;
  }
  \<close>
\<close>

definition primaryImages :: "image list \<Rightarrow> image list" where
  "primaryImages imgs = filter isPrimary imgs"

definition ensure_one_primary :: "image list \<Rightarrow> image list" where
  "ensure_one_primary imgs =
     (if length (primaryImages imgs) > 1 then
        map (\<lambda>(index, img). if index > 0 then img\<lparr>isPrimary := False\<rparr> else img)
          (enumerate 0 imgs)
      else if length (primaryImages imgs) = 0 \<and> length imgs > 0 then
        imgs[0 := (imgs ! 0)\<lparr>isPrimary := True\<rparr>]
      else imgs)"

subsection \<open>Documents and their modified paths\<close>

text \<open>
  A Mongoose document: the values in memory, whether it is new, and the paths marked
  modified. Assigning a path of a loaded document marks it when the value differs from
  the one in memory (or the path is marked already); every assignment to a new document
  marks. \<^verbatim>\<open>save()\<close> of a loaded document sends the modified paths only.
\<close>

record document =
  isNew :: bool
  modifiedPaths :: "string list"
  doc :: product

definition load :: "product \<Rightarrow> document" where
  "load p = \<lparr>isNew = False, modifiedPaths = [], doc = p\<rparr>"

definition isModified :: "document \<Rightarrow> string \<Rightarrow> bool" where
  "isModified d path = (path \<in> set (modifiedPaths d))"

definition markModified :: "string \<Rightarrow> bool \<Rightarrow> document \<Rightarrow> document" where
  "markModified path differs d =
     (if isNew d \<or> isModified d path \<or> differs
      then d\<lparr>modifiedPaths := List.insert path (modifiedPaths d)\<rparr> else d)"

text \<open>\<^verbatim>\<open>trim\<close> removes the white space at both ends; \<open>is_space\<close> is the white space of ASCII.\<close>

definition is_space :: "char \<Rightarrow> bool" where
  "is_space c = (c \<in> set [CHR '' '', CHR 0x09, CHR 0x0A, CHR 0x0B, CHR 0x0C, CHR 0x0D])"

definition trim :: "string \<Rightarrow> string" where
  "trim s = rev (dropWhile is_space (rev (dropWhile is_space s)))"

text \<open>The setters, one for each path. The schema trims \<open>name\<close>.\<close>

definition set_name :: "string \<Rightarrow> document \<Rightarrow> document" where
  "set_name v d = markModified ''name'' (trim v \<noteq> name (doc d)) (d\<lparr>doc := (doc d)\<lparr>name := trim v\<rparr>\<rparr>)"

definition set_slug :: "string \<Rightarrow> document \<Rightarrow> document" where
  "set_slug v d = markModified ''slug'' (v \<noteq> slug (doc d)) (d\<lparr>doc := (doc d)\<lparr>slug := v\<rparr>\<rparr>)"

definition set_description :: "string \<Rightarrow> document \<Rightarrow> document" where
  "set_description v d =
     markModified ''description'' (v \<noteq> description (doc d)) (d\<lparr>doc := (doc d)\<lparr>description := v\<rparr>\<rparr>)"

definition set_price :: "rat \<Rightarrow> document \<Rightarrow> document" where
  "set_price v d = markModified ''price'' (v \<noteq> price (doc d)) (d\<lparr>doc := (doc d)\<lparr>price := v\<rparr>\<rparr>)"

definition set_category :: "string \<Rightarrow> document \<Rightarrow> document" where
  "set_category v d =
     markModified ''category'' (v \<noteq> category (doc d)) (d\<lparr>doc := (doc d)\<lparr>category := v\<rparr>\<rparr>)"

text \<open>
  An assigned array of images is cast to fresh subdocuments, so the path is always
  marked.
\<close>

definition set_images :: "image list \<Rightarrow> document \<Rightarrow> document" where
  "set_images v d = markModified ''images'' True (d\<lparr>doc := (doc d)\<lparr>images := v\<rparr>\<rparr>)"

definition set_isActive :: "bool \<Rightarrow> document \<Rightarrow> document" where
  "set_isActive v d =
     markModified ''isActive'' (v \<noteq> isActive (doc d)) (d\<lparr>doc := (doc d)\<lparr>isActive := v\<rparr>\<rparr>)"

definition set_isFeatured :: "bool \<Rightarrow> document \<Rightarrow> document" where
  "set_isFeatured v d =
     markModified ''isFeatured'' (v \<noteq> isFeatured (doc d)) (d\<lparr>doc := (doc d)\<lparr>isFeatured := v\<rparr>\<rparr>)"

definition set_stats :: "stats \<Rightarrow> document \<Rightarrow> document" where
  "set_stats v d = markModified ''stats'' (v \<noteq> stats (doc d)) (d\<lparr>doc := (doc d)\<lparr>stats := v\<rparr>\<rparr>)"

definition set_stats_views :: "int \<Rightarrow> document \<Rightarrow> document" where
  "set_stats_views v d =
     markModified ''stats.views'' (v \<noteq> views (stats (doc d)))
       (d\<lparr>doc := (doc d)\<lparr>stats := (stats (doc d))\<lparr>views := v\<rparr>\<rparr>\<rparr>)"

definition set_stats_downloads :: "int \<Rightarrow> document \<Rightarrow> document" where
  "set_stats_downloads v d =
     markModified ''stats.downloads'' (v \<noteq> downloads (stats (doc d)))
       (d\<lparr>doc := (doc d)\<lparr>stats := (stats (doc d))\<lparr>downloads := v\<rparr>\<rparr>\<rparr>)"

definition set_stats_sales :: "int \<Rightarrow> document \<Rightarrow> document" where
  "set_stats_sales v d =
     markModified ''stats.sales'' (v \<noteq> sales (stats (doc d)))
       (d\<lparr>doc := (doc d)\<lparr>stats := (stats (doc d))\<lparr>sales := v\<rparr>\<rparr>\<rparr>)"

definition set_createdBy :: "string \<Rightarrow> document \<Rightarrow> document" where
  "set_createdBy v d =
     markModified ''createdBy'' (v \<noteq> createdBy (doc d)) (d\<lparr>doc := (doc d)\<lparr>createdBy := v\<rparr>\<rparr>)"

definition set_updatedBy :: "string \<Rightarrow> document \<Rightarrow> document" where
  "set_updatedBy v d =
     markModified ''updatedBy'' (Some v \<noteq> updatedBy (doc d)) (d\<lparr>doc := (doc d)\<lparr>updatedBy := Some v\<rparr>\<rparr>)"

text \<open>The \<^verbatim>\<open>$set\<close> of one modified path, from the document \<open>src\<close> onto the stored \<open>dst\<close>.\<close>

definition write_path :: "product \<Rightarrow> string \<Rightarrow> product \<Rightarrow> product" where
  "write_path src path dst =
     (if path = ''name'' then dst\<lparr>name := name src\<rparr>
      else if path = ''slug'' then dst\<lparr>slug := slug src\<rparr>
      else if path = ''description'' then dst\<lparr>description := description src\<rparr>
      else if path = ''price'' then dst\<lparr>price := price src\<rparr>
      else if path = ''category'' then dst\<lparr>category := category src\<rparr>
      else if path = ''images'' then dst\<lparr>images := images src\<rparr>
      else if path = ''isActive'' then dst\<lparr>isActive := isActive src\<rparr>
      else if path = ''isFeatured'' then dst\<lparr>isFeatured := isFeatured src\<rparr>
      else if path = ''stats'' then dst\<lparr>stats := stats src\<rparr>
      else if path = ''stats.views'' then dst\<lparr>stats := (stats dst)\<lparr>views := views (stats src)\<rparr>\<rparr>
      else if path = ''stats.downloads'' then
        dst\<lparr>stats := (stats dst)\<lparr>downloads := downloads (stats src)\<rparr>\<rparr>
      else if path = ''stats.sales'' then dst\<lparr>stats := (stats dst)\<lparr>sales := sales (stats src)\<rparr>\<rparr>
      else if path = ''createdBy'' then dst\<lparr>createdBy := createdBy src\<rparr>
      else if path = ''updatedBy'' then dst\<lparr>updatedBy := updatedBy src\<rparr>
      else dst)"

definition write_modified :: "document \<Rightarrow> product \<Rightarrow> product" where
  "write_modified d dst = fold (write_path (doc d)) (modifiedPaths d) dst"

subsection \<open>Validation and the hooks of save\<close>

text \<open>
  The schema's validators on the modelled paths: \<^verbatim>\<open>required\<close> and \<^verbatim>\<open>maxlength\<close> of
  \<open>name\<close> and \<open>description\<close>, \<^verbatim>\<open>min: 0\<close> of \<open>price\<close>, the \<^verbatim>\<open>enum\<close> of \<open>category\<close>,
  \<^verbatim>\<open>required\<close> of \<open>createdBy\<close> and of the \<open>url\<close> of an image, \<^verbatim>\<open>min: 0, max: 5\<close> of
  \<^verbatim>\<open>stats.rating.average\<close>. A save runs them before the hooks, on every path that has a
  value. The values of a document have the types of their paths: the cast of a value that
  has not (for \<open>createdBy\<close> and \<open>updatedBy\<close>, a string that is no ObjectId), which fails the
  validation too, is not modelled.
\<close>

definition validate :: "document \<Rightarrow> bool" where
  "validate d =
     (name (doc d) \<noteq> [] \<and> length (name (doc d)) \<le> 100
      \<and> description (doc d) \<noteq> [] \<and> length (description (doc d)) \<le> 2000
      \<and> 0 \<le> price (doc d)
      \<and> category (doc d) \<in> set categories
      \<and> createdBy (doc d) \<noteq> []
      \<and> list_all (\<lambda>img. url img \<noteq> []) (images (doc d))
      \<and> 0 \<le> average (rating (stats (doc d))) \<and> average (rating (stats (doc d))) \<le> 5)"

text \<open>
  \<^verbatim>\<open>
  productSchema.pre('save', function(next) {
    if (this.isModified('name')) {
      this.slug = slugify(this.name, { lower: true, strict: true });
    }
    next();
  });
  productSchema.pre('save', function(next) {
    if (this.isModified('images')) { ... }
    next();
  });
  \<close>
\<close>

definition slug_hook :: "env \<Rightarrow> document \<Rightarrow> document" where
  "slug_hook env d =
     (if isModified d ''name'' then set_slug (slugify env (name (doc d))) d else d)"

definition images_hook :: "document \<Rightarrow> document" where
  "images_hook d =
     (if isModified d ''images''
      then d\<lparr>doc := (doc d)\<lparr>images := ensure_one_primary (images (doc d))\<rparr>\<rparr> else d)"

subsection \<open>The store\<close>

type_synonym store = "product list"

datatype save_error = ValidationError | DuplicateKey | DocumentNotFound | CastError

text \<open>\<open>DuplicateKey\<close> is the driver's error with \<^verbatim>\<open>code === 11000\<close>.\<close>

definition error_code :: "save_error \<Rightarrow> int option" where
  "error_code e = (if e = DuplicateKey then Some 11000 else None)"

definition is_hex :: "char \<Rightarrow> bool" where
  "is_hex c = (c \<in> set ''0123456789abcdefABCDEF'')"

text \<open>\<^verbatim>\<open>identifier.match(/^[0-9a-fA-F]{24}$/)\<close>\<close>

definition isObjectIdString :: "string \<Rightarrow> bool" where
  "isObjectIdString s = (length s = 24 \<and> list_all is_hex s)"

definition lower_hex :: "char \<Rightarrow> char" where
  "lower_hex c =
     (if c = CHR ''A'' then CHR ''a'' else if c = CHR ''B'' then CHR ''b''
      else if c = CHR ''C'' then CHR ''c'' else if c = CHR ''D'' then CHR ''d''
      else if c = CHR ''E'' then CHR ''e'' else if c = CHR ''F'' then CHR ''f'' else c)"

definition byId :: "store \<Rightarrow> string \<Rightarrow> product option" where
  "byId st i = find (\<lambda>p. oid p = i) st"

text \<open>
  \<^verbatim>\<open>Product.findById(s)\<close>: the string is cast to an ObjectId (24 hexadecimal digits
  in either case denote the same ObjectId), a string that cannot be cast raises.
\<close>

definition findById :: "env \<Rightarrow> store \<Rightarrow> string \<Rightarrow> save_error + product option" where
  "findById env st s =
     (if isObjectIdString s then Inr (byId st (map lower_hex s))
      else (case castObjectId env s of
              None \<Rightarrow> Inl CastError
            | Some i \<Rightarrow> Inr (byId st i)))"

text \<open>\<^verbatim>\<open>Product.findOne({ slug: s })\<close>\<close>

definition findOne_slug :: "store \<Rightarrow> string \<Rightarrow> product option" where
  "findOne_slug st s = find (\<lambda>p. slug p = s) st"

text \<open>The unique indexes are on \<^verbatim>\<open>_id\<close> and on \<^verbatim>\<open>slug\<close> (\<^verbatim>\<open>unique: true\<close>).\<close>

definition insertOne :: "store \<Rightarrow> product \<Rightarrow> save_error + store" where
  "insertOne st p =
     (if list_ex (\<lambda>q. oid q = oid p \<or> slug q = slug p) st then Inl DuplicateKey
      else Inr (st @ [p]))"

fun replace_first :: "string \<Rightarrow> product \<Rightarrow> store \<Rightarrow> store" where
  "replace_first i new [] = []"
| "replace_first i new (p # ps) = (if oid p = i then new # ps else p # replace_first i new ps)"

definition updateOne :: "store \<Rightarrow> document \<Rightarrow> save_error + store" where
  "updateOne st d =
     (case byId st (oid (doc d)) of
        None \<Rightarrow> Inl DocumentNotFound
      | Some old \<Rightarrow>
          if isModified d ''slug''
             \<and> list_ex (\<lambda>q. oid q \<noteq> oid old \<and> slug q = slug (doc d)) st
          then Inl DuplicateKey
          else Inr (replace_first (oid old) (write_modified d old) st))"

text \<open>
  \<^verbatim>\<open>save()\<close>: validation, the two hooks, then the insert or the update. It returns the
  store and the document as it is in memory afterwards.
\<close>

definition save :: "env \<Rightarrow> store \<Rightarrow> document \<Rightarrow> save_error + (store \<times> document)" where
  "save env st d =
     (if \<not> validate d then Inl ValidationError
      else
        let d' = images_hook (slug_hook env d) in
        (case (if isNew d' then insertOne st (doc d') else updateOne st d') of
           Inl e \<Rightarrow> Inl e
         | Inr st' \<Rightarrow> Inr (st', d'\<lparr>isNew := False, modifiedPaths := []\<rparr>)))"

text \<open>
  \<^verbatim>\<open>
  productSchema.methods.incrementViews = function() {
    this.stats.views += 1;
    return this.save();
  };
  \<close>
  The assignment happens at the call; the save is the promise the method returns.
\<close>

definition bumpViews :: "document \<Rightarrow> document" where
  "bumpViews d = set_stats_views (views (stats (doc d)) + 1) d"

definition bumpDownloads :: "document \<Rightarrow> document" where
  "bumpDownloads d = set_stats_downloads (downloads (stats (doc d)) + 1) d"

definition bumpSales :: "document \<Rightarrow> document" where
  "bumpSales d = set_stats_sales (sales (stats (doc d)) + 1) d"

definition incrementViews :: "env \<Rightarrow> store \<Rightarrow> document \<Rightarrow> save_error + (store \<times> document)" where
  "incrementViews env st d = save env st (bumpViews d)"

definition incrementDownloads :: "env \<Rightarrow> store \<Rightarrow> document \<Rightarrow> save_error + (store \<times> document)" where
  "incrementDownloads env st d = save env st (bumpDownloads d)"

definition incrementSales :: "env \<Rightarrow> store \<Rightarrow> document \<Rightarrow> save_error + (store \<times> document)" where
  "incrementSales env st d = save env st (bumpSales d)"

subsection \<open>Answers\<close>

text \<open>
  An answer is \<^verbatim>\<open>res.status(n).json(...)\<close>: with \<^verbatim>\<open>success: true\<close> the status and the
  data, with \<^verbatim>\<open>success: false\<close> the status, the message and the validation errors (each
  the parameter and its message).
\<close>

datatype 'a response = Success nat 'a | Failure nat string "(string \<times> string) list"

subsection \<open>GET /api/products: the validators\<close>

text \<open>
  \<^verbatim>\<open>req.query\<close>: each parameter is absent or a string. A query string that gives a
  parameter as an array or as an object (one that repeats \<^verbatim>\<open>page\<close>, \<^verbatim>\<open>limit\<close>,
  \<^verbatim>\<open>category\<close> or \<^verbatim>\<open>sort\<close>, which \<^verbatim>\<open>hpp\<close> in \<^verbatim>\<open>src/server.js\<close> lets through as arrays, or one
  that writes a parameter with brackets) is not a \<open>list_query\<close>: what is proved of
  every \<open>list_query\<close> is proved of the requests whose parameters are strings.
\<close>

record list_query =
  rq_page :: "string option"
  rq_limit :: "string option"
  rq_category :: "string option"
  rq_minPrice :: "string option"
  rq_maxPrice :: "string option"
  rq_sort :: "string option"
  rq_search :: "string option"
  rq_featured :: "string option"

definition is_digit :: "char \<Rightarrow> bool" where
  "is_digit c = (c \<in> set ''0123456789'')"

definition digits_value :: "string \<Rightarrow> int" where
  "digits_value s = foldl (\<lambda>a c. 10 * a + (int (of_char c) - 48)) 0 s"

text \<open>validator's \<^verbatim>\<open>isInt\<close> tests the text against \<^verbatim>\<open>/^[-+]?[0-9]+$/\<close>.\<close>

definition isInt_text :: "string \<Rightarrow> bool" where
  "isInt_text s =
     (case s of
        [] \<Rightarrow> False
      | c # cs \<Rightarrow>
          if c = CHR ''-'' \<or> c = CHR ''+'' then cs \<noteq> [] \<and> list_all is_digit cs
          else list_all is_digit s)"

text \<open>
  \<^verbatim>\<open>parseInt\<close>, on the texts \<open>isInt_text\<close> accepts: the handler calls it on nothing
  else but its own numeric defaults. The value is the integer the digits write; the
  number of JavaScript is the double nearest to it, which is this integer up to \<open>2^53\<close>.
\<close>

definition parseInt :: "string \<Rightarrow> int" where
  "parseInt s =
     (case s of
        [] \<Rightarrow> 0
      | c # cs \<Rightarrow>
          if c = CHR ''-'' then - digits_value cs
          else if c = CHR ''+'' then digits_value cs
          else digits_value s)"

definition isInt :: "int \<Rightarrow> int option \<Rightarrow> string \<Rightarrow> bool" where
  "isInt lo hi s =
     (isInt_text s \<and> lo \<le> parseInt s \<and> (case hi of None \<Rightarrow> True | Some h \<Rightarrow> parseInt s \<le> h))"

definition sort_keys :: "string list" where
  "sort_keys = [''newest'', ''oldest'', ''price-low'', ''price-high'', ''popular'', ''rating'']"

text \<open>
  A validator of an \<^verbatim>\<open>optional()\<close> parameter: nothing when the parameter is absent,
  an error with the message when the check fails.
\<close>

definition check_optional ::
  "string \<Rightarrow> string \<Rightarrow> string option \<Rightarrow> (string \<Rightarrow> bool) \<Rightarrow> (string \<times> string) list" where
  "check_optional param msg v ok =
     (case v of None \<Rightarrow> [] | Some s \<Rightarrow> if ok s then [] else [(param, msg)])"

definition validate_list_query :: "env \<Rightarrow> list_query \<Rightarrow> (string \<times> string) list" where
  "validate_list_query env q =
     check_optional ''page'' ''Page must be a positive integer'' (rq_page q) (isInt 1 None)
     @ check_optional ''limit'' ''Limit must be between 1 and 100'' (rq_limit q) (isInt 1 (Some 100))
     @ check_optional ''category'' ''Invalid value'' (rq_category q) (\<lambda>s. s \<in> set categories)
     @ check_optional ''minPrice'' ''Min price must be non-negative'' (rq_minPrice q) (isFloat env)
     @ check_optional ''maxPrice'' ''Max price must be non-negative'' (rq_maxPrice q) (isFloat env)
     @ check_optional ''sort'' ''Invalid value'' (rq_sort q) (\<lambda>s. s \<in> set sort_keys)
     @ check_optional ''search'' ''Search term must be between 1 and 100 characters'' (rq_search q)
         (\<lambda>s. 1 \<le> length s \<and> length s \<le> 100)"

subsection \<open>GET /api/products: the query, the sort and the page\<close>

record price_range =
  gte :: "rat option"
  lte :: "rat option"

text \<open>The filter given to \<^verbatim>\<open>find\<close> and \<^verbatim>\<open>countDocuments\<close>: a key is absent or has a value.\<close>

record filter_doc =
  f_isActive :: "bool option"
  f_category :: "string option"
  f_price :: "price_range option"
  f_isFeatured :: "bool option"
  f_text :: "string option"

text \<open>A string of the query is truthy when it is there and not empty.\<close>

definition truthy :: "string option \<Rightarrow> bool" where
  "truthy v = (case v of None \<Rightarrow> False | Some s \<Rightarrow> s \<noteq> [])"

definition price_bound :: "env \<Rightarrow> string option \<Rightarrow> rat option" where
  "price_bound env v = (if truthy v then map_option (parseFloat env) v else None)"

definition build_query :: "env \<Rightarrow> list_query \<Rightarrow> filter_doc" where
  "build_query env q =
     (let query = \<lparr>f_isActive = Some True, f_category = None, f_price = None,
                   f_isFeatured = None, f_text = None\<rparr>;
          query = (if truthy (rq_category q) then query\<lparr>f_category := rq_category q\<rparr> else query);
          query = (if truthy (rq_minPrice q) \<or> truthy (rq_maxPrice q)
                   then query\<lparr>f_price := Some \<lparr>gte = price_bound env (rq_minPrice q),
                                                lte = price_bound env (rq_maxPrice q)\<rparr>\<rparr>
                   else query);
          query = (if rq_featured q = Some ''true'' then query\<lparr>f_isFeatured := Some True\<rparr> else query);
          query = (if truthy (rq_search q) then query\<lparr>f_text := rq_search q\<rparr> else query)
      in query)"

text \<open>A sort criterion is \<^verbatim>\<open>1\<close>, \<^verbatim>\<open>-1\<close> or \<^verbatim>\<open>{ $meta: 'textScore' }\<close>; the keys keep their order.\<close>

datatype sort_value = Dir int | Meta string

type_synonym sort_obj = "(string \<times> sort_value) list"

definition resolve_sort :: "string \<Rightarrow> sort_obj" where
  "resolve_sort key =
     (if key = ''newest'' then [(''createdAt'', Dir (- 1))]
      else if key = ''oldest'' then [(''createdAt'', Dir 1)]
      else if key = ''price-low'' then [(''price'', Dir 1)]
      else if key = ''price-high'' then [(''price'', Dir (- 1))]
      else if key = ''popular'' then [(''stats.sales'', Dir (- 1)), (''stats.views'', Dir (- 1))]
      else if key = ''rating'' then
        [(''stats.rating.average'', Dir (- 1)), (''stats.rating.count'', Dir (- 1))]
      else [(''createdAt'', Dir (- 1))])"

text \<open>\<^verbatim>\<open>if (search) { sortObj = { score: { $meta: 'textScore' }, ...sortObj }; }\<close>\<close>

definition build_sort :: "list_query \<Rightarrow> sort_obj" where
  "build_sort q =
     (let sortObj = resolve_sort (case rq_sort q of None \<Rightarrow> ''newest'' | Some s \<Rightarrow> s)
      in if truthy (rq_search q) then (''score'', Meta ''textScore'') # sortObj else sortObj)"

subsection \<open>The store's find\<close>

definition in_range :: "price_range \<Rightarrow> rat \<Rightarrow> bool" where
  "in_range r x =
     ((case gte r of None \<Rightarrow> True | Some lo \<Rightarrow> lo \<le> x)
      \<and> (case lte r of None \<Rightarrow> True | Some hi \<Rightarrow> x \<le> hi))"

text \<open>A document matches a filter when it meets the condition of every key present.\<close>

definition matches :: "env \<Rightarrow> filter_doc \<Rightarrow> product \<Rightarrow> bool" where
  "matches env f p =
     ((case f_isActive f of None \<Rightarrow> True | Some b \<Rightarrow> isActive p = b)
      \<and> (case f_category f of None \<Rightarrow> True | Some c \<Rightarrow> category p = c)
      \<and> (case f_price f of None \<Rightarrow> True | Some r \<Rightarrow> in_range r (price p))
      \<and> (case f_isFeatured f of None \<Rightarrow> True | Some b \<Rightarrow> isFeatured p = b)
      \<and> (case f_text f of None \<Rightarrow> True | Some s \<Rightarrow> textMatch env s p))"

text \<open>The value a document is sorted by under a path, with no value for a path it lacks.\<close>

definition path_value :: "string \<Rightarrow> product \<Rightarrow> rat" where
  "path_value path p =
     (if path = ''createdAt'' then of_int (createdAt p)
      else if path = ''price'' then price p
      else if path = ''stats.sales'' then of_int (sales (stats p))
      else if path = ''stats.views'' then of_int (views (stats p))
      else if path = ''stats.rating.average'' then average (rating (stats p))
      else if path = ''stats.rating.count'' then of_int (count (rating (stats p)))
      else 0)"

text \<open>
  The rank of a document under one criterion, smaller first: the value times the
  direction, and the text score of the filter's search, greatest first, for
  \<^verbatim>\<open>$meta: 'textScore'\<close>.
\<close>

definition score_of :: "env \<Rightarrow> filter_doc \<Rightarrow> product \<Rightarrow> rat" where
  "score_of env f p = (case f_text f of None \<Rightarrow> 0 | Some s \<Rightarrow> textScore env s p)"

definition rank :: "env \<Rightarrow> filter_doc \<Rightarrow> string \<times> sort_value \<Rightarrow> product \<Rightarrow> rat" where
  "rank env f c p =
     (case snd c of
        Dir n \<Rightarrow> of_int n * path_value (fst c) p
      | Meta m \<Rightarrow> - score_of env f p)"

text \<open>The criteria compare in their order: a later one decides where the earlier ones tie.\<close>

fun sort_le :: "env \<Rightarrow> filter_doc \<Rightarrow> sort_obj \<Rightarrow> product \<Rightarrow> product \<Rightarrow> bool" where
  "sort_le env f [] a b = True"
| "sort_le env f (c # cs) a b =
     (rank env f c a < rank env f c b
      \<or> (rank env f c a = rank env f c b \<and> sort_le env f cs a b))"

fun insort_doc :: "(product \<Rightarrow> product \<Rightarrow> bool) \<Rightarrow> product \<Rightarrow> product list \<Rightarrow> product list" where
  "insort_doc le x [] = [x]"
| "insort_doc le x (y # ys) = (if le x y then x # y # ys else y # insort_doc le x ys)"

definition sort_docs :: "(product \<Rightarrow> product \<Rightarrow> bool) \<Rightarrow> product list \<Rightarrow> product list" where
  "sort_docs le xs = foldr (insort_doc le) xs []"

text \<open>
  \<^verbatim>\<open>Product.find(query).sort(sortObj).skip(skip).limit(limit)\<close>, for \<open>0 \<le> skip\<close> and
  \<open>1 \<le> limit\<close>, and \<^verbatim>\<open>Product.countDocuments(query)\<close>. The projection
  \<^verbatim>\<open>select('-files -__v')\<close> touches no modelled path; the handler populates the documents
  found.
\<close>

definition find_docs :: "env \<Rightarrow> store \<Rightarrow> filter_doc \<Rightarrow> sort_obj \<Rightarrow> int \<Rightarrow> int \<Rightarrow> product list" where
  "find_docs env st f sortObj skip lmt =
     take (nat lmt) (drop (nat skip) (sort_docs (sort_le env f sortObj) (filter (matches env f) st)))"

definition countDocuments :: "env \<Rightarrow> store \<Rightarrow> filter_doc \<Rightarrow> int" where
  "countDocuments env st f = int (length (filter (matches env f) st))"

subsection \<open>GET /api/products: the handler\<close>

record pagination =
  currentPage :: int
  totalPages :: int
  totalProducts :: int
  hasNextPage :: bool
  hasPrevPage :: bool
  limit :: int

record applied_filters =
  a_category :: "string option"
  a_minPrice :: "string option"
  a_maxPrice :: "string option"
  a_search :: "string option"
  a_sort :: string

record listing =
  data :: "populated list"
  pagination :: pagination
  filters :: applied_filters

text \<open>\<^verbatim>\<open>parseInt(page)\<close> and \<^verbatim>\<open>parseInt(limit)\<close>, with the defaults \<^verbatim>\<open>page = 1, limit = 12\<close>.\<close>

definition page_of :: "list_query \<Rightarrow> int" where
  "page_of q = (case rq_page q of None \<Rightarrow> 1 | Some s \<Rightarrow> parseInt s)"

definition limit_of :: "list_query \<Rightarrow> int" where
  "limit_of q = (case rq_limit q of None \<Rightarrow> 12 | Some s \<Rightarrow> parseInt s)"

text \<open>
  \<^verbatim>\<open>
  const totalPages = Math.ceil(total / parseInt(limit));
  const hasNextPage = parseInt(page) < totalPages;
  const hasPrevPage = parseInt(page) > 1;
  \<close>
  The division is exact in \<open>rat\<close>; the limit is at least 1 where the handler gets here.
\<close>

definition paginate :: "int \<Rightarrow> int \<Rightarrow> int \<Rightarrow> pagination" where
  "paginate page lmt tot =
     (let totalPages = \<lceil>(of_int tot :: rat) / of_int lmt\<rceil>
      in \<lparr>currentPage = page, totalPages = totalPages, totalProducts = tot,
          hasNextPage = (page < totalPages), hasPrevPage = (page > 1), limit = lmt\<rparr>)"

definition listProducts :: "env \<Rightarrow> store \<Rightarrow> list_query \<Rightarrow> listing response" where
  "listProducts env st q =
     (let errors = validate_list_query env q in
      if errors \<noteq> [] then Failure 400 ''Invalid query parameters'' errors
      else
        let query = build_query env q;
            sortObj = build_sort q;
            skip = (page_of q - 1) * limit_of q;
            products = find_docs env st query sortObj skip (limit_of q);
            tot = countDocuments env st query
        in Success 200
             \<lparr>data = map (populate env) products,
              pagination = paginate (page_of q) (limit_of q) tot,
              filters = \<lparr>a_category = rq_category q, a_minPrice = rq_minPrice q,
                         a_maxPrice = rq_maxPrice q, a_search = rq_search q,
                         a_sort = (case rq_sort q of None \<Rightarrow> ''newest'' | Some s \<Rightarrow> s)\<rparr>\<rparr>)"

subsection \<open>GET /api/products/:identifier\<close>

text \<open>
  \<^verbatim>\<open>
  if (identifier.match(/^[0-9a-fA-F]{24}$/)) {
    product = await Product.findById(identifier);
  } else {
    product = await Product.findOne({ slug: identifier });
  }
  \<close>
\<close>

definition lookup :: "env \<Rightarrow> store \<Rightarrow> string \<Rightarrow> save_error + product option" where
  "lookup env st identifier =
     (if isObjectIdString identifier then findById env st identifier
      else Inr (findOne_slug st identifier))"

text \<open>
  The handler answers with the document in memory, whose views
  \<^verbatim>\<open>product.incrementViews()\<close> has raised already, populated; the save it starts is not
  awaited and its failure is logged. Here the save is done when the handler returns.
\<close>

definition getProduct :: "env \<Rightarrow> store \<Rightarrow> string \<Rightarrow> store \<times> populated response" where
  "getProduct env st identifier =
     (case lookup env st identifier of
        Inl e \<Rightarrow> (st, Failure 500 ''Server error while fetching product'' [])
      | Inr None \<Rightarrow> (st, Failure 404 ''Product not found'' [])
      | Inr (Some p) \<Rightarrow>
          if \<not> isActive p then (st, Failure 404 ''Product not found'' [])
          else
            ((case incrementViews env st (load p) of Inl e \<Rightarrow> st | Inr (st', d') \<Rightarrow> st'),
             Success 200 (populate env (doc (bumpViews (load p))))))"

subsection \<open>The admin middleware\<close>

record user =
  uid :: string
  role :: string

text \<open>
  \<open>Inl\<close> is the answer of the middleware, \<open>Inr\<close> is \<^verbatim>\<open>next()\<close>, with the user of the
  request.
\<close>

definition admin :: "user option \<Rightarrow> (nat \<times> string) + user" where
  "admin req_user =
     (case req_user of
        None \<Rightarrow> Inl (401, ''Access denied. Authentication required.'')
      | Some u \<Rightarrow>
          if role u \<noteq> ''admin'' then Inl (403, ''Access denied. Admin privileges required.'')
          else Inr u)"

subsection \<open>POST /api/products and PUT /api/products/:id\<close>

text \<open>
  \<^verbatim>\<open>req.body\<close>, on the modelled paths: a key is absent or has a value of the path's type
  (for \<open>createdBy\<close> and \<open>updatedBy\<close> an ObjectId, in its 24 digit lower case hexadecimal
  form).
\<close>

record body =
  b_name :: "string option"
  b_slug :: "string option"
  b_description :: "string option"
  b_price :: "rat option"
  b_category :: "string option"
  b_images :: "image list option"
  b_isActive :: "bool option"
  b_isFeatured :: "bool option"
  b_stats :: "stats option"
  b_createdBy :: "string option"
  b_updatedBy :: "string option"

definition length_between :: "nat \<Rightarrow> nat \<Rightarrow> string \<Rightarrow> bool" where
  "length_between lo hi s = (lo \<le> length s \<and> length s \<le> hi)"

definition or_empty :: "string option \<Rightarrow> string" where
  "or_empty v = (case v of None \<Rightarrow> [] | Some s \<Rightarrow> s)"

text \<open>The validators of POST: a missing field is checked as the empty string.\<close>

definition validate_create :: "body \<Rightarrow> (string \<times> string) list" where
  "validate_create b =
     (if length_between 1 100 (trim (or_empty (b_name b))) then []
      else [(''name'', ''Product name must be between 1 and 100 characters'')])
     @ (if length_between 10 2000 (trim (or_empty (b_description b))) then []
        else [(''description'', ''Description must be between 10 and 2000 characters'')])
     @ (case b_price b of
          None \<Rightarrow> [(''price'', ''Price must be a non-negative number'')]
        | Some v \<Rightarrow> if 0 \<le> v then [] else [(''price'', ''Price must be a non-negative number'')])
     @ (case b_category b of
          None \<Rightarrow> [(''category'', ''Invalid category'')]
        | Some c \<Rightarrow> if c \<in> set categories then [] else [(''category'', ''Invalid category'')])"

text \<open>The validators of PUT: every one is \<^verbatim>\<open>optional()\<close>.\<close>

definition validate_update :: "body \<Rightarrow> (string \<times> string) list" where
  "validate_update b =
     check_optional ''name'' ''Product name must be between 1 and 100 characters'' (b_name b)
       (\<lambda>s. length_between 1 100 (trim s))
     @ check_optional ''description'' ''Description must be between 10 and 2000 characters''
         (b_description b) (\<lambda>s. length_between 10 2000 (trim s))
     @ (case b_price b of
          None \<Rightarrow> []
        | Some v \<Rightarrow> if 0 \<le> v then [] else [(''price'', ''Price must be a non-negative number'')])
     @ check_optional ''category'' ''Invalid category'' (b_category b) (\<lambda>s. s \<in> set categories)"

text \<open>The sanitizer \<^verbatim>\<open>.trim()\<close> of the two chains writes the trimmed text back.\<close>

definition sanitize :: "body \<Rightarrow> body" where
  "sanitize b = b\<lparr>b_name := map_option trim (b_name b),
                  b_description := map_option trim (b_description b)\<rparr>"

definition assign :: "'a option \<Rightarrow> ('a \<Rightarrow> document \<Rightarrow> document) \<Rightarrow> document \<Rightarrow> document" where
  "assign v setter d = (case v of None \<Rightarrow> d | Some x \<Rightarrow> setter x d)"

text \<open>The value a key of the body gives a path: its own, or else the one the path has.\<close>

definition or_keep :: "'a option \<Rightarrow> 'a \<Rightarrow> 'a" where
  "or_keep v a = (case v of None \<Rightarrow> a | Some x \<Rightarrow> x)"

text \<open>
  \<^verbatim>\<open>
  Object.keys(req.body).forEach(key => {
    if (req.body[key] !== undefined) { product[key] = req.body[key]; }
  });
  \<close>
  and the same assignments by \<^verbatim>\<open>new Product(productData)\<close>.
\<close>

definition assign_body :: "body \<Rightarrow> document \<Rightarrow> document" where
  "assign_body b d =
     (let d = assign (b_name b) set_name d;
          d = assign (b_slug b) set_slug d;
          d = assign (b_description b) set_description d;
          d = assign (b_price b) set_price d;
          d = assign (b_category b) set_category d;
          d = assign (b_images b) set_images d;
          d = assign (b_isActive b) set_isActive d;
          d = assign (b_isFeatured b) set_isFeatured d;
          d = assign (b_stats b) set_stats d;
          d = assign (b_createdBy b) set_createdBy d;
          d = assign (b_updatedBy b) set_updatedBy d
      in d)"

fun string_of_nat :: "nat \<Rightarrow> string" where
  "string_of_nat n =
     (if n < 10 then [char_of (48 + n)]
      else string_of_nat (n div 10) @ [char_of (48 + n mod 10)])"

declare string_of_nat.simps [simp del]

text \<open>
  \<^verbatim>\<open>
  productData.images = req.files.map((file, index) => ({
    url: file.path, alt: `${req.body.name} - Image ${index + 1}`, isPrimary: index === 0
  }));
  \<close>
\<close>

definition uploaded_images :: "string \<Rightarrow> string list \<Rightarrow> image list" where
  "uploaded_images nm files =
     map (\<lambda>(index, path).
            \<lparr>url = path, alt = nm @ '' - Image '' @ string_of_nat (index + 1),
             isPrimary = (index = 0)\<rparr>)
       (enumerate 0 files)"

text \<open>
  A new document with the schema's defaults; \<open>i\<close> is the ObjectId the driver gives it and
  \<open>now\<close> the time of \<^verbatim>\<open>timestamps\<close>. A path with no default and no value yet holds the
  empty string (\<open>price\<close> holds 0, and is assigned before any save).
\<close>

definition new_document :: "string \<Rightarrow> int \<Rightarrow> document" where
  "new_document i now =
     \<lparr>isNew = True, modifiedPaths = [],
      doc = \<lparr>oid = i, name = [], slug = [], description = [], price = 0, category = [],
             images = [], isActive = True, isFeatured = False,
             stats = \<lparr>views = 0, downloads = 0, sales = 0,
                      rating = \<lparr>average = 0, count = 0\<rparr>\<rparr>,
             createdBy = [], updatedBy = None, createdAt = now\<rparr>\<rparr>"

definition productData :: "user \<Rightarrow> body \<Rightarrow> string list \<Rightarrow> body" where
  "productData u b files =
     (let pd = b\<lparr>b_createdBy := Some (uid u)\<rparr>
      in if length files > 0
         then pd\<lparr>b_images := Some (uploaded_images (or_empty (b_name b)) files)\<rparr>
         else pd)"

definition createProduct ::
  "env \<Rightarrow> store \<Rightarrow> user option \<Rightarrow> body \<Rightarrow> string list \<Rightarrow> string \<Rightarrow> int \<Rightarrow> store \<times> populated response" where
  "createProduct env st req_user b files i now =
     (case admin req_user of
        Inl (code, msg) \<Rightarrow> (st, Failure code msg [])
      | Inr u \<Rightarrow>
          let errors = validate_create b in
          if errors \<noteq> [] then (st, Failure 400 ''Validation failed'' errors)
          else
            (case save env st (assign_body (productData u (sanitize b) files) (new_document i now)) of
               Inl e \<Rightarrow>
                 if error_code e = Some 11000
                 then (st, Failure 400 ''Product with this name already exists'' [])
                 else (st, Failure 500 ''Server error while creating product'' [])
             | Inr (st', d') \<Rightarrow> (st', Success 201 (populate env (doc d')))))"

definition updateProduct ::
  "env \<Rightarrow> store \<Rightarrow> user option \<Rightarrow> string \<Rightarrow> body \<Rightarrow> store \<times> populated response" where
  "updateProduct env st req_user i b =
     (case admin req_user of
        Inl (code, msg) \<Rightarrow> (st, Failure code msg [])
      | Inr u \<Rightarrow>
          let errors = validate_update b in
          if errors \<noteq> [] then (st, Failure 400 ''Validation failed'' errors)
          else
            (case findById env st i of
               Inl e \<Rightarrow> (st, Failure 500 ''Server error while updating product'' [])
             | Inr None \<Rightarrow> (st, Failure 404 ''Product not found'' [])
             | Inr (Some p) \<Rightarrow>
                 (case save env st (set_updatedBy (uid u) (assign_body (sanitize b) (load p))) of
                    Inl e \<Rightarrow> (st, Failure 500 ''Server error while updating product'' [])
                  | Inr (st', d') \<Rightarrow> (st', Success 200 (populate env (doc d'))))))"

subsection \<open>DELETE /api/products/:id\<close>

definition softDeleteProduct ::
  "env \<Rightarrow> store \<Rightarrow> user option \<Rightarrow> string \<Rightarrow> store \<times> unit response" where
  "softDeleteProduct env st req_user i =
     (case admin req_user of
        Inl (code, msg) \<Rightarrow> (st, Failure code msg [])
      | Inr u \<Rightarrow>
          (case findById env st i of
             Inl e \<Rightarrow> (st, Failure 500 ''Server error while deleting product'' [])
           | Inr None \<Rightarrow> (st, Failure 404 ''Product not found'' [])
           | Inr (Some p) \<Rightarrow>
               (case save env st (set_updatedBy (uid u) (set_isActive False (load p))) of
                  Inl e \<Rightarrow> (st, Failure 500 ''Server error while deleting product'' [])
                | Inr (st', d') \<Rightarrow> (st', Success 200 ()))))"

subsection \<open>The operations in sequence\<close>

text \<open>
  A call of one of the five operations, with what the request carries: the user the
  authentication put on it, the parameters, and for a creation the uploaded files, the
  ObjectId the driver gives the document and the time.
\<close>

datatype operation =
    ListProducts list_query
  | GetProduct string
  | CreateProduct "user option" body "string list" string int
  | UpdateProduct "user option" string body
  | SoftDeleteProduct "user option" string

definition step :: "env \<Rightarrow> store \<Rightarrow> operation \<Rightarrow> store" where
  "step env st c =
     (case c of
        ListProducts q \<Rightarrow> st
      | GetProduct identifier \<Rightarrow> fst (getProduct env st identifier)
      | CreateProduct req_user b files i now \<Rightarrow> fst (createProduct env st req_user b files i now)
      | UpdateProduct req_user i b \<Rightarrow> fst (updateProduct env st req_user i b)
      | SoftDeleteProduct req_user i \<Rightarrow> fst (softDeleteProduct env st req_user i))"

definition run :: "env \<Rightarrow> store \<Rightarrow> operation list \<Rightarrow> store" where
  "run env st cs = foldl (step env) st cs"

text \<open>The calls that carry \<^verbatim>\<open>isActive: true\<close> in the body of an update.\<close>

definition sets_active :: "operation \<Rightarrow> bool" where
  "sets_active c =
     (case c of
        UpdateProduct req_user i b \<Rightarrow> b_isActive b = Some True
      | _ \<Rightarrow> False)"

subsection \<open>Requests in parallel\<close>

text \<open>
  The handler of GET /:identifier awaits the lookup and does not await the save that
  \<^verbatim>\<open>incrementViews\<close> starts, so the requests interleave at two points: \<open>Found r s\<close>,
  the lookup of request \<open>r\<close> for the identifier \<open>s\<close> reads the store and the handler
  raises the views of its document in memory; \<open>Saved r\<close>, the save request \<open>r\<close> started
  reaches the store. \<open>inMemory\<close> holds the document of each request whose save is under
  way, \<open>saves\<close> counts the saves that succeeded.
\<close>

datatype event = Found nat string | Saved nat

record world =
  stored :: store
  inMemory :: "nat \<Rightarrow> document option"
  saves :: nat

definition occur :: "env \<Rightarrow> world \<Rightarrow> event \<Rightarrow> world" where
  "occur env w e =
     (case e of
        Found r identifier \<Rightarrow>
          (case lookup env (stored w) identifier of
             Inl err \<Rightarrow> w
           | Inr None \<Rightarrow> w
           | Inr (Some p) \<Rightarrow>
               if \<not> isActive p then w
               else w\<lparr>inMemory := (inMemory w)(r := Some (bumpViews (load p)))\<rparr>)
      | Saved r \<Rightarrow>
          (case inMemory w r of
             None \<Rightarrow> w
           | Some d \<Rightarrow>
               (case save env (stored w) d of
                  Inl err \<Rightarrow> w\<lparr>inMemory := (inMemory w)(r := None)\<rparr>
                | Inr (st', d') \<Rightarrow>
                    \<lparr>stored = st', inMemory = (inMemory w)(r := None), saves = saves w + 1\<rparr>)))"

definition interleaving :: "env \<Rightarrow> world \<Rightarrow> event list \<Rightarrow> world" where
  "interleaving env w es = foldl (occur env) w es"

definition idle :: "store \<Rightarrow> world" where
  "idle st = \<lparr>stored = st, inMemory = (\<lambda>r. None), saves = 0\<rparr>"

subsection \<open>Data for the examples\<close>

text \<open>
  An instance of the library functions for the examples below. Their names are made of
  lower case letters, which \<^verbatim>\<open>slugify\<close> leaves as they are; their prices are written
  with digits only; the text search of the examples finds a product by its whole name
  (score 2) or its whole description (score 1); no string of the examples but the 24
  digit ones is cast to an ObjectId.
\<close>

definition example_env :: env where
  "example_env =
     \<lparr>slugify = (\<lambda>s. s),
      isFloat = (\<lambda>s. s \<noteq> [] \<and> list_all is_digit s),
      parseFloat = (\<lambda>s. of_int (digits_value s)),
      textMatch = (\<lambda>s p. name p = s \<or> description p = s),
      textScore = (\<lambda>s p. (if name p = s then 2 else 0) + (if description p = s then 1 else 0)),
      castObjectId = (\<lambda>s. None),
      userName = (\<lambda>i. if i = ''64b7f3a2c19e4d0012ab0001'' then Some ''admin'' else None)\<rparr>"

definition example_admin :: user where
  "example_admin = \<lparr>uid = ''64b7f3a2c19e4d0012ab0001'', role = ''admin''\<rparr>"

definition alpha :: product where
  "alpha =
     \<lparr>oid = ''64b7f3a2c19e4d0012ab34cd'', name = ''alpha'', slug = ''alpha'',
      description = ''A starter template'', price = 20, category = ''templates'',
      images = [], isActive = True, isFeatured = False,
      stats = \<lparr>views = 5, downloads = 3, sales = 2, rating = \<lparr>average = 4, count = 1\<rparr>\<rparr>,
      createdBy = ''64b7f3a2c19e4d0012ab0001'', updatedBy = None, createdAt = 1\<rparr>"

definition beta :: product where
  "beta =
     \<lparr>oid = ''64b7f3a2c19e4d0012ab34ce'', name = ''beta'', slug = ''beta'',
      description = ''A second template'', price = 40, category = ''templates'',
      images = [], isActive = True, isFeatured = False,
      stats = \<lparr>views = 0, downloads = 0, sales = 0, rating = \<lparr>average = 0, count = 0\<rparr>\<rparr>,
      createdBy = ''64b7f3a2c19e4d0012ab0001'', updatedBy = None, createdAt = 2\<rparr>"

text \<open>A product whose name, and so its slug, is 24 hexadecimal digits.\<close>

definition gamma :: product where
  "gamma =
     \<lparr>oid = ''64b7f3a2c19e4d0012ab34cf'', name = ''aaaaaaaaaaaaaaaaaaaaaaaa'',
      slug = ''aaaaaaaaaaaaaaaaaaaaaaaa'', description = ''A third template'', price = 5,
      category = ''themes'', images = [], isActive = True, isFeatured = False,
      stats = \<lparr>views = 0, downloads = 0, sales = 0, rating = \<lparr>average = 0, count = 0\<rparr>\<rparr>,
      createdBy = ''64b7f3a2c19e4d0012ab0001'', updatedBy = None, createdAt = 3\<rparr>"

text \<open>A product whose name, and so its slug, is the id of \<open>alpha\<close>.\<close>

definition epsilon :: product where
  "epsilon =
     \<lparr>oid = ''64b7f3a2c19e4d0012ab34d1'', name = ''64b7f3a2c19e4d0012ab34cd'',
      slug = ''64b7f3a2c19e4d0012ab34cd'', description = ''A fifth template'', price = 8,
      category = ''themes'', images = [], isActive = True, isFeatured = False,
      stats = \<lparr>views = 0, downloads = 0, sales = 0, rating = \<lparr>average = 0, count = 0\<rparr>\<rparr>,
      createdBy = ''64b7f3a2c19e4d0012ab0001'', updatedBy = None, createdAt = 5\<rparr>"

definition no_params :: list_query where
  "no_params =
     \<lparr>rq_page = None, rq_limit = None, rq_category = None, rq_minPrice = None,
      rq_maxPrice = None, rq_sort = None, rq_search = None, rq_featured = None\<rparr>"

definition no_fields :: body where
  "no_fields =
     \<lparr>b_name = None, b_slug = None, b_description = None, b_price = None, b_category = None,
      b_images = None, b_isActive = None, b_isFeatured = None, b_stats = None,
      b_createdBy = None, b_updatedBy = None\<rparr>"

section \<open>Properties\<close>

subsection \<open>Helper facts: the data of the examples\<close>

lemma alpha_fields [simp]:
  "oid alpha = ''64b7f3a2c19e4d0012ab34cd''" "name alpha = ''alpha''" "slug alpha = ''alpha''"
  "description alpha = ''A starter template''" "price alpha = 20"
  "category alpha = ''templates''" "images alpha = []" "isActive alpha" "\<not> isFeatured alpha"
  "stats alpha = \<lparr>views = 5, downloads = 3, sales = 2, rating = \<lparr>average = 4, count = 1\<rparr>\<rparr>"
  "createdBy alpha = ''64b7f3a2c19e4d0012ab0001''" "updatedBy alpha = None" "createdAt alpha = 1"
  by (simp_all add: alpha_def)

lemma beta_fields [simp]:
  "oid beta = ''64b7f3a2c19e4d0012ab34ce''" "name beta = ''beta''" "slug beta = ''beta''"
  "description beta = ''A second template''" "price beta = 40"
  "category beta = ''templates''" "images beta = []" "isActive beta" "\<not> isFeatured beta"
  "stats beta = \<lparr>views = 0, downloads = 0, sales = 0, rating = \<lparr>average = 0, count = 0\<rparr>\<rparr>"
  "createdBy beta = ''64b7f3a2c19e4d0012ab0001''" "updatedBy beta = None" "createdAt beta = 2"
  by (simp_all add: beta_def)

lemma gamma_fields [simp]:
  "oid gamma = ''64b7f3a2c19e4d0012ab34cf''" "name gamma = ''aaaaaaaaaaaaaaaaaaaaaaaa''"
  "slug gamma = ''aaaaaaaaaaaaaaaaaaaaaaaa''" "description gamma = ''A third template''"
  "price gamma = 5" "category gamma = ''themes''" "images gamma = []" "isActive gamma"
  "\<not> isFeatured gamma"
  "stats gamma = \<lparr>views = 0, downloads = 0, sales = 0, rating = \<lparr>average = 0, count = 0\<rparr>\<rparr>"
  "createdBy gamma = ''64b7f3a2c19e4d0012ab0001''" "updatedBy gamma = None" "createdAt gamma = 3"
  by (simp_all add: gamma_def)

lemma epsilon_fields [simp]:
  "oid epsilon = ''64b7f3a2c19e4d0012ab34d1''" "name epsilon = ''64b7f3a2c19e4d0012ab34cd''"
  "slug epsilon = ''64b7f3a2c19e4d0012ab34cd''" "description epsilon = ''A fifth template''"
  "price epsilon = 8" "category epsilon = ''themes''" "images epsilon = []" "isActive epsilon"
  "\<not> isFeatured epsilon"
  "stats epsilon = \<lparr>views = 0, downloads = 0, sales = 0, rating = \<lparr>average = 0, count = 0\<rparr>\<rparr>"
  "createdBy epsilon = ''64b7f3a2c19e4d0012ab0001''" "updatedBy epsilon = None" "createdAt epsilon = 5"
  by (simp_all add: epsilon_def)

lemma example_env_fields [simp]:
  "slugify example_env s = s"
  "isFloat example_env s = (s \<noteq> [] \<and> list_all is_digit s)"
  "parseFloat example_env s = of_int (digits_value s)"
  "textMatch example_env s p = (name p = s \<or> description p = s)"
  "textScore example_env s p
     = (if name p = s then 2 else 0) + (if description p = s then 1 else 0)"
  "castObjectId example_env s = None"
  "userName example_env i = (if i = ''64b7f3a2c19e4d0012ab0001'' then Some ''admin'' else None)"
  by (simp_all add: example_env_def)

lemma example_admin_fields [simp]:
  "uid example_admin = ''64b7f3a2c19e4d0012ab0001''" "role example_admin = ''admin''"
  by (simp_all add: example_admin_def)

subsection \<open>Helper facts: populated documents\<close>

lemma populate_fields [simp]:
  "oid (populate env p) = oid p" "name (populate env p) = name p"
  "slug (populate env p) = slug p" "description (populate env p) = description p"
  "price (populate env p) = price p" "category (populate env p) = category p"
  "images (populate env p) = images p" "isActive (populate env p) = isActive p"
  "isFeatured (populate env p) = isFeatured p" "stats (populate env p) = stats p"
  "updatedBy (populate env p) = updatedBy p" "createdAt (populate env p) = createdAt p"
  "createdBy (populate env p)
     = map_option (\<lambda>n. \<lparr>creator_id = createdBy p, creator_name = n\<rparr>) (userName env (createdBy p))"
  by (simp_all add: populate_def)

subsection \<open>Helper facts: the validators of the listing\<close>

lemma check_optional_Nil:
  "check_optional param msg v ok = [] \<longleftrightarrow> (case v of None \<Rightarrow> True | Some s \<Rightarrow> ok s)"
  by (simp add: check_optional_def split: option.split)

lemma valid_page: "validate_list_query env q = [] \<Longrightarrow> 1 \<le> page_of q"
  by (auto simp: validate_list_query_def check_optional_Nil page_of_def isInt_def
      split: option.splits)

lemma valid_limit: "validate_list_query env q = [] \<Longrightarrow> 1 \<le> limit_of q \<and> limit_of q \<le> 100"
  by (auto simp: validate_list_query_def check_optional_Nil limit_of_def isInt_def
      split: option.splits)

lemma valid_search: "validate_list_query env q = [] \<Longrightarrow> rq_search q = Some s \<Longrightarrow> s \<noteq> []"
  by (auto simp: validate_list_query_def check_optional_Nil split: option.splits)

lemma listProducts_Success:
  "listProducts env st q = Success n r \<Longrightarrow>
     validate_list_query env q = [] \<and> n = 200
     \<and> data r = map (populate env) (find_docs env st (build_query env q) (build_sort q)
                                      ((page_of q - 1) * limit_of q) (limit_of q))
     \<and> pagination r = paginate (page_of q) (limit_of q) (countDocuments env st (build_query env q))
     \<and> a_sort (filters r) = (case rq_sort q of None \<Rightarrow> ''newest'' | Some s \<Rightarrow> s)"
  by (auto simp: listProducts_def Let_def split: if_splits)

subsection \<open>Helper facts: the store's sort\<close>

lemma set_insort_doc: "set (insort_doc le x xs) = insert x (set xs)"
  by (induction xs) auto

lemma set_sort_docs: "set (sort_docs le xs) = set xs"
  by (induction xs) (simp_all add: sort_docs_def set_insort_doc)

lemma sort_le_total: "sort_le env f cs a b \<or> sort_le env f cs b a"
  by (induction cs) auto

lemma sort_le_trans: "sort_le env f cs a b \<Longrightarrow> sort_le env f cs b c \<Longrightarrow> sort_le env f cs a c"
  by (induction cs) auto

lemma sorted_insort_doc:
  assumes tot: "\<And>a b. le a b \<or> le b a" and tr: "\<And>a b c. le a b \<Longrightarrow> le b c \<Longrightarrow> le a c"
  shows "sorted_wrt le xs \<Longrightarrow> sorted_wrt le (insort_doc le x xs)"
proof (induction xs)
  case Nil
  then show ?case by simp
next
  case (Cons y ys)
  show ?case
  proof (cases "le x y")
    case True
    with Cons.prems tr show ?thesis by auto
  next
    case False
    with tot have "le y x" by blast
    with Cons False show ?thesis by (auto simp: set_insort_doc)
  qed
qed

lemma sorted_sort_docs:
  assumes tot: "\<And>a b. le a b \<or> le b a" and tr: "\<And>a b c. le a b \<Longrightarrow> le b c \<Longrightarrow> le a c"
  shows "sorted_wrt le (sort_docs le xs)"
proof (induction xs)
  case Nil
  then show ?case by (simp add: sort_docs_def)
next
  case (Cons x xs)
  have "sort_docs le (x # xs) = insort_doc le x (sort_docs le xs)"
    by (simp add: sort_docs_def)
  with Cons sorted_insort_doc[of le, OF tot tr] show ?case by simp
qed

lemma sorted_find_docs: "sorted_wrt (sort_le env f cs) (find_docs env st f cs skip lmt)"
proof -
  have "sorted_wrt (sort_le env f cs) (sort_docs (sort_le env f cs) (filter (matches env f) st))"
    by (rule sorted_sort_docs) (use sort_le_total sort_le_trans in blast)+
  then show ?thesis
    unfolding find_docs_def by (intro sorted_wrt_take sorted_wrt_drop)
qed

lemma set_find_docs: "set (find_docs env st f cs skip lmt) \<subseteq> {p \<in> set st. matches env f p}"
proof -
  have "set (find_docs env st f cs skip lmt)
          \<subseteq> set (sort_docs (sort_le env f cs) (filter (matches env f) st))"
    unfolding find_docs_def by (meson set_take_subset set_drop_subset subset_trans)
  then show ?thesis by (simp add: set_sort_docs)
qed

lemma f_text_build_query:
  "f_text (build_query env q) = (if truthy (rq_search q) then rq_search q else None)"
  by (simp add: build_query_def Let_def)

lemma f_isActive_build_query: "f_isActive (build_query env q) = Some True"
  by (simp add: build_query_def Let_def)

subsection \<open>The sort parameter\<close>

text \<open>
  C3, as the code has it. A request whose sort parameter is a string outside the six
  known keys is answered 400, \<^verbatim>\<open>Invalid query parameters\<close>, with the validation error of
  \<open>sort\<close>: the validator \<^verbatim>\<open>query('sort').optional().isIn([...])\<close> stands before the
  handler. There is no listing for such a string, sorted by newest or otherwise.
\<close>

theorem unknown_sort_is_rejected:
  "rq_sort q = Some s \<and> s \<notin> set sort_keys \<longrightarrow>
     (\<exists>errors. listProducts env st q = Failure 400 ''Invalid query parameters'' errors
        \<and> (''sort'', ''Invalid value'') \<in> set errors)"
  by (simp add: listProducts_def Let_def validate_list_query_def check_optional_def)

theorem unknown_sort_is_rejected_witness:
  "rq_sort (no_params\<lparr>rq_sort := Some ''cheapest''\<rparr>) = Some ''cheapest''
   \<and> ''cheapest'' \<notin> set sort_keys
   \<and> (\<exists>errors. listProducts example_env [alpha] (no_params\<lparr>rq_sort := Some ''cheapest''\<rparr>)
                   = Failure 400 ''Invalid query parameters'' errors
                 \<and> (''sort'', ''Invalid value'') \<in> set errors)"
  using unknown_sort_is_rejected
          [of "no_params\<lparr>rq_sort := Some ''cheapest''\<rparr>" "''cheapest''" example_env "[alpha]"]
  by (simp add: sort_keys_def no_params_def)

theorem unknown_sort_counterexample:
  "''cheapest'' \<notin> set sort_keys
   \<and> listProducts example_env [alpha] (no_params\<lparr>rq_sort := Some ''cheapest''\<rparr>)
       = Failure 400 ''Invalid query parameters'' [(''sort'', ''Invalid value'')]"
  by (simp add: listProducts_def Let_def validate_list_query_def check_optional_def
      sort_keys_def no_params_def)

subsection \<open>The page of an empty result\<close>

text \<open>
  C4, as the code has it. When the count under the filter is 0, the listing has
  \<open>totalPages = 0\<close> and \<open>hasNextPage = false\<close>, and \<open>hasPrevPage\<close> is \<open>page > 1\<close> as for
  every other count: it is false for the first page only.
\<close>

theorem empty_result_pagination:
  assumes "listProducts env st q = Success n r" and "totalProducts (pagination r) = 0"
  shows "totalPages (pagination r) = 0 \<and> \<not> hasNextPage (pagination r)
       \<and> hasPrevPage (pagination r) = (1 < page_of q)
       \<and> currentPage (pagination r) = page_of q \<and> 1 \<le> page_of q"
proof -
  from assms(1) have v: "validate_list_query env q = []"
    and p: "pagination r
              = paginate (page_of q) (limit_of q) (countDocuments env st (build_query env q))"
    by (simp_all add: listProducts_Success)
  from assms(2) p have z: "countDocuments env st (build_query env q) = 0"
    by (simp add: paginate_def Let_def)
  from valid_page[OF v] show ?thesis
    by (simp add: p z paginate_def Let_def)
qed

lemma paginate_int:
  "paginate page lmt tot =
     \<lparr>currentPage = page, totalPages = - ((- tot) div lmt), totalProducts = tot,
      hasNextPage = (page < - ((- tot) div lmt)), hasPrevPage = (page > 1), limit = lmt\<rparr>"
  by (simp add: paginate_def Let_def ceiling_divide_eq_div)

lemma list_page_two:
  "listProducts example_env [] (no_params\<lparr>rq_page := Some ''2''\<rparr>)
     = Success 200
        \<lparr>data = [],
         pagination = \<lparr>currentPage = 2, totalPages = 0, totalProducts = 0,
                       hasNextPage = False, hasPrevPage = True, limit = 12\<rparr>,
         filters = \<lparr>a_category = None, a_minPrice = None, a_maxPrice = None,
                    a_search = None, a_sort = ''newest''\<rparr>\<rparr>"
  by (simp add: listProducts_def Let_def validate_list_query_def check_optional_def no_params_def
      isInt_def isInt_text_def is_digit_def parseInt_def digits_value_def page_of_def limit_of_def
      find_docs_def sort_docs_def countDocuments_def paginate_def)

theorem empty_result_pagination_witness:
  "listProducts example_env [] (no_params\<lparr>rq_page := Some ''2''\<rparr>)
     = Success 200
        \<lparr>data = [],
         pagination = \<lparr>currentPage = 2, totalPages = 0, totalProducts = 0,
                       hasNextPage = False, hasPrevPage = True, limit = 12\<rparr>,
         filters = \<lparr>a_category = None, a_minPrice = None, a_maxPrice = None,
                    a_search = None, a_sort = ''newest''\<rparr>\<rparr>
   \<and> page_of (no_params\<lparr>rq_page := Some ''2''\<rparr>) = 2"
  using empty_result_pagination[OF list_page_two] list_page_two
  by simp

theorem empty_result_counterexample:
  "listProducts example_env [] (no_params\<lparr>rq_page := Some ''2''\<rparr>)
     = Success 200
        \<lparr>data = [],
         pagination = \<lparr>currentPage = 2, totalPages = 0, totalProducts = 0,
                       hasNextPage = False, hasPrevPage = True, limit = 12\<rparr>,
         filters = \<lparr>a_category = None, a_minPrice = None, a_maxPrice = None,
                    a_search = None, a_sort = ''newest''\<rparr>\<rparr>"
  by (rule list_page_two)

subsection \<open>Helper facts: lookups and documents\<close>

lemma byId_Some: "byId st i = Some p \<Longrightarrow> p \<in> set st \<and> oid p = i"
  by (auto simp: byId_def find_Some_iff)

lemma find_distinct:
  "distinct (map f xs) \<Longrightarrow> p \<in> set xs \<Longrightarrow> find (\<lambda>q. f q = f p) xs = Some p"
  by (induction xs) (auto simp: image_iff)

lemma doc_markModified [simp]: "doc (markModified path b d) = doc d"
  by (simp add: markModified_def)

lemma isNew_markModified [simp]: "isNew (markModified path b d) = isNew d"
  by (simp add: markModified_def)

lemma doc_bumpViews:
  "doc (bumpViews d) = (doc d)\<lparr>stats := (stats (doc d))\<lparr>views := views (stats (doc d)) + 1\<rparr>\<rparr>"
  by (simp add: bumpViews_def set_stats_views_def)

lemma lookup_hex: "isObjectIdString s \<Longrightarrow> lookup env st s = Inr (byId st (map lower_hex s))"
  by (simp add: lookup_def findById_def)

lemma getProduct_cases:
  "getProduct env st s =
     (case lookup env st s of
        Inl e \<Rightarrow> (st, Failure 500 ''Server error while fetching product'' [])
      | Inr None \<Rightarrow> (st, Failure 404 ''Product not found'' [])
      | Inr (Some p) \<Rightarrow>
          if \<not> isActive p then (st, Failure 404 ''Product not found'' [])
          else ((case incrementViews env st (load p) of Inl e \<Rightarrow> st | Inr (st', d') \<Rightarrow> st'),
                Success 200 (populate env (doc (bumpViews (load p))))))"
  by (simp add: getProduct_def)

lemma mem_find_docs:
  "p \<in> set (find_docs env st f cs skip lmt) \<Longrightarrow> p \<in> set st \<and> matches env f p"
  using set_find_docs[of env st f cs skip lmt] by blast

lemma matches_isActive: "matches env (build_query env q) p \<Longrightarrow> isActive p"
  by (simp add: matches_def f_isActive_build_query)

lemma hex_alpha_id:
  "isObjectIdString ''64b7f3a2c19e4d0012ab34cd''
   \<and> map lower_hex ''64b7f3a2c19e4d0012ab34cd'' = ''64b7f3a2c19e4d0012ab34cd''"
  by (simp add: isObjectIdString_def is_hex_def lower_hex_def)

lemma not_hex_alpha: "\<not> isObjectIdString ''alpha''"
  by (simp add: isObjectIdString_def)

lemma hex_a: "isObjectIdString ''aaaaaaaaaaaaaaaaaaaaaaaa''"
  by (simp add: isObjectIdString_def is_hex_def)

lemma found_in_store: "lookup env st s = Inr (Some q) \<Longrightarrow> q \<in> set st"
  by (auto simp: lookup_def findById_def findOne_slug_def find_Some_iff dest: byId_Some
      split: if_splits option.splits)

lemma getProduct_found:
  assumes "lookup env st identifier = Inr (Some q)" and "isActive q"
  shows "snd (getProduct env st identifier)
           = Success 200 (populate env (q\<lparr>stats := (stats q)\<lparr>views := views (stats q) + 1\<rparr>\<rparr>))"
  using assms by (simp add: getProduct_cases doc_bumpViews load_def)

lemma getProduct_Success:
  assumes "snd (getProduct env st identifier) = Success n r"
  shows "\<exists>q\<in>set st. isActive q \<and> lookup env st identifier = Inr (Some q)
           \<and> r = populate env (q\<lparr>stats := (stats q)\<lparr>views := views (stats q) + 1\<rparr>\<rparr>)"
proof -
  from assms obtain q where l: "lookup env st identifier = Inr (Some q)" and a: "isActive q"
    and r: "r = populate env (doc (bumpViews (load q)))"
    by (auto simp: getProduct_cases split: sum.splits option.splits if_splits)
  from found_in_store[OF l] a r l show ?thesis
    by (auto simp: doc_bumpViews load_def)
qed

lemma byId_distinct: "distinct (map oid st) \<Longrightarrow> p \<in> set st \<Longrightarrow> byId st (oid p) = Some p"
  by (simp add: byId_def find_distinct)

lemma oid_inj:
  "distinct (map oid st) \<Longrightarrow> a \<in> set st \<Longrightarrow> b \<in> set st \<Longrightarrow> oid a = oid b \<Longrightarrow> a = b"
  by (auto simp: distinct_map dest: inj_onD)

lemma byId_all_inactive:
  assumes "\<forall>q\<in>set st. oid q = i \<longrightarrow> \<not> isActive q"
  shows "byId st i = None \<or> (\<exists>q. byId st i = Some q \<and> \<not> isActive q)"
proof (cases "byId st i")
  case None
  then show ?thesis by simp
next
  case (Some q)
  with byId_Some[OF Some] assms show ?thesis by auto
qed

subsection \<open>Inactive products\<close>

text \<open>
  C5, as the code has it. The filter of every listing has \<open>isActive = true\<close>, whatever
  the parameters: the products of a listing are the populated forms of active documents
  of the store, and none of them has the id of an inactive product \<open>p\<close> of the store.
  GET /:identifier answers 404 and leaves the store as it is whenever its lookup finds a
  product that is not active: so for the id of \<open>p\<close>, and for the slug of \<open>p\<close> when the slug
  is not 24 hexadecimal digits. A slug of 24 hexadecimal digits is looked up as an id
  (see C10): the answer is 404 when no active product has the slug as its id, and it is
  200, with that other product, when an active product has. Under every identifier, a
  product the handler returns is the populated form of an active document of the store,
  with its views raised, and it is never \<open>p\<close>. The ids of the store are distinct where a
  product is told by its id, and so are the slugs where \<open>p\<close> is looked up by its slug:
  both paths have a unique index.
\<close>

theorem inactive_products_hidden:
  "f_isActive (build_query env q) = Some True
   \<and> (listProducts env st q = Success n r \<longrightarrow>
        (\<exists>docs. data r = map (populate env) docs \<and> (\<forall>d\<in>set docs. d \<in> set st \<and> isActive d)))
   \<and> (listProducts env st q = Success n r \<and> p \<in> set st \<and> \<not> isActive p
        \<and> distinct (map oid st) \<longrightarrow> (\<forall>a\<in>set (data r). oid a \<noteq> oid p))
   \<and> (lookup env st identifier = Inr (Some p) \<and> \<not> isActive p \<longrightarrow>
        getProduct env st identifier = (st, Failure 404 ''Product not found'' []))
   \<and> (p \<in> set st \<and> \<not> isActive p \<and> distinct (map oid st)
        \<and> isObjectIdString (oid p) \<and> map lower_hex (oid p) = oid p \<longrightarrow>
        getProduct env st (oid p) = (st, Failure 404 ''Product not found'' []))
   \<and> (p \<in> set st \<and> \<not> isActive p \<and> distinct (map slug st) \<and> \<not> isObjectIdString (slug p) \<longrightarrow>
        getProduct env st (slug p) = (st, Failure 404 ''Product not found'' []))
   \<and> (p \<in> set st \<and> \<not> isActive p \<and> isObjectIdString (slug p)
        \<and> (\<forall>a\<in>set st. oid a = map lower_hex (slug p) \<longrightarrow> \<not> isActive a) \<longrightarrow>
        getProduct env st (slug p) = (st, Failure 404 ''Product not found'' []))
   \<and> (p \<in> set st \<and> \<not> isActive p \<and> isObjectIdString (slug p) \<and> distinct (map oid st)
        \<and> other \<in> set st \<and> isActive other \<and> oid other = map lower_hex (slug p) \<longrightarrow>
        snd (getProduct env st (slug p))
          = Success 200
              (populate env (other\<lparr>stats := (stats other)\<lparr>views := views (stats other) + 1\<rparr>\<rparr>)))
   \<and> (snd (getProduct env st identifier) = Success m found \<longrightarrow>
        (\<exists>a\<in>set st. isActive a
           \<and> found = populate env (a\<lparr>stats := (stats a)\<lparr>views := views (stats a) + 1\<rparr>\<rparr>)))
   \<and> (snd (getProduct env st identifier) = Success m found \<and> p \<in> set st \<and> \<not> isActive p
        \<and> distinct (map oid st) \<longrightarrow> oid found \<noteq> oid p)"
proof (intro conjI impI)
  show "f_isActive (build_query env q) = Some True"
    by (rule f_isActive_build_query)
next
  assume "listProducts env st q = Success n r"
  then have "data r = map (populate env) (find_docs env st (build_query env q) (build_sort q)
                  ((page_of q - 1) * limit_of q) (limit_of q))"
    by (simp add: listProducts_Success)
  then show "\<exists>docs. data r = map (populate env) docs \<and> (\<forall>d\<in>set docs. d \<in> set st \<and> isActive d)"
    by (blast dest: mem_find_docs matches_isActive)
next
  assume a: "listProducts env st q = Success n r \<and> p \<in> set st \<and> \<not> isActive p
        \<and> distinct (map oid st)"
  then have d: "data r = map (populate env) (find_docs env st (build_query env q) (build_sort q)
                  ((page_of q - 1) * limit_of q) (limit_of q))"
    by (simp add: listProducts_Success)
  show "\<forall>a\<in>set (data r). oid a \<noteq> oid p"
  proof
    fix x assume "x \<in> set (data r)"
    with d obtain y where y: "y \<in> set st" "isActive y" "x = populate env y"
      by (auto dest: mem_find_docs matches_isActive)
    show "oid x \<noteq> oid p"
    proof
      assume "oid x = oid p"
      with y have "oid y = oid p" by simp
      with a y(1) have "y = p" by (blast intro: oid_inj)
      with a y(2) show False by simp
    qed
  qed
next
  assume "lookup env st identifier = Inr (Some p) \<and> \<not> isActive p"
  then show "getProduct env st identifier = (st, Failure 404 ''Product not found'' [])"
    by (simp add: getProduct_cases)
next
  assume a: "p \<in> set st \<and> \<not> isActive p \<and> distinct (map oid st)
        \<and> isObjectIdString (oid p) \<and> map lower_hex (oid p) = oid p"
  then have "byId st (oid p) = Some p"
    by (simp add: byId_distinct)
  with a have "lookup env st (oid p) = Inr (Some p)"
    by (simp add: lookup_def findById_def)
  with a show "getProduct env st (oid p) = (st, Failure 404 ''Product not found'' [])"
    by (simp add: getProduct_cases)
next
  assume a: "p \<in> set st \<and> \<not> isActive p \<and> distinct (map slug st) \<and> \<not> isObjectIdString (slug p)"
  then have "findOne_slug st (slug p) = Some p"
    by (simp add: findOne_slug_def find_distinct)
  with a have "lookup env st (slug p) = Inr (Some p)"
    by (simp add: lookup_def)
  with a show "getProduct env st (slug p) = (st, Failure 404 ''Product not found'' [])"
    by (simp add: getProduct_cases)
next
  assume a: "p \<in> set st \<and> \<not> isActive p \<and> isObjectIdString (slug p)
        \<and> (\<forall>a\<in>set st. oid a = map lower_hex (slug p) \<longrightarrow> \<not> isActive a)"
  then have l: "lookup env st (slug p) = Inr (byId st (map lower_hex (slug p)))"
    by (simp add: lookup_hex)
  from a byId_all_inactive[of st "map lower_hex (slug p)"]
  have "byId st (map lower_hex (slug p)) = None
        \<or> (\<exists>a. byId st (map lower_hex (slug p)) = Some a \<and> \<not> isActive a)"
    by blast
  with l show "getProduct env st (slug p) = (st, Failure 404 ''Product not found'' [])"
    by (auto simp: getProduct_cases)
next
  assume a: "p \<in> set st \<and> \<not> isActive p \<and> isObjectIdString (slug p) \<and> distinct (map oid st)
        \<and> other \<in> set st \<and> isActive other \<and> oid other = map lower_hex (slug p)"
  then have l: "lookup env st (slug p) = Inr (byId st (map lower_hex (slug p)))"
    by (simp add: lookup_hex)
  from a byId_distinct[of st other] have "byId st (map lower_hex (slug p)) = Some other"
    by simp
  with l have "lookup env st (slug p) = Inr (Some other)"
    by simp
  with a show "snd (getProduct env st (slug p))
          = Success 200
              (populate env (other\<lparr>stats := (stats other)\<lparr>views := views (stats other) + 1\<rparr>\<rparr>))"
    by (simp add: getProduct_found)
next
  assume "snd (getProduct env st identifier) = Success m found"
  from getProduct_Success[OF this]
  show "\<exists>a\<in>set st. isActive a
           \<and> found = populate env (a\<lparr>stats := (stats a)\<lparr>views := views (stats a) + 1\<rparr>\<rparr>)"
    by blast
next
  assume a: "snd (getProduct env st identifier) = Success m found \<and> p \<in> set st \<and> \<not> isActive p
        \<and> distinct (map oid st)"
  then have "snd (getProduct env st identifier) = Success m found"
    by simp
  from getProduct_Success[OF this] obtain y where y: "y \<in> set st" "isActive y"
      "found = populate env (y\<lparr>stats := (stats y)\<lparr>views := views (stats y) + 1\<rparr>\<rparr>)"
    by blast
  show "oid found \<noteq> oid p"
  proof
    assume "oid found = oid p"
    with y have "oid y = oid p" by simp
    with a y(1) have "y = p" by (blast intro: oid_inj)
    with a y(2) show False by simp
  qed
qed

lemma list_inactive:
  "listProducts example_env [alpha\<lparr>isActive := False\<rparr>, beta] no_params
     = Success 200
        \<lparr>data = [populate example_env beta],
         pagination = \<lparr>currentPage = 1, totalPages = 1, totalProducts = 1,
                       hasNextPage = False, hasPrevPage = False, limit = 12\<rparr>,
         filters = \<lparr>a_category = None, a_minPrice = None, a_maxPrice = None,
                    a_search = None, a_sort = ''newest''\<rparr>\<rparr>"
  by (simp add: listProducts_def Let_def validate_list_query_def check_optional_def no_params_def
      page_of_def limit_of_def find_docs_def sort_docs_def countDocuments_def paginate_int
      build_query_def build_sort_def resolve_sort_def truthy_def matches_def)

lemma get_by_slug_of_hidden:
  "snd (getProduct example_env [alpha, epsilon\<lparr>isActive := False\<rparr>] ''64b7f3a2c19e4d0012ab34cd'')
     = Success 200 (populate example_env (alpha\<lparr>stats := (stats alpha)\<lparr>views := 6\<rparr>\<rparr>))"
  using getProduct_found
          [of example_env "[alpha, epsilon\<lparr>isActive := False\<rparr>]" "''64b7f3a2c19e4d0012ab34cd''" alpha]
  by (simp add: lookup_hex hex_alpha_id byId_def lower_hex_def)

theorem inactive_products_hidden_witness:
  "alpha\<lparr>isActive := False\<rparr> \<in> set [alpha\<lparr>isActive := False\<rparr>, beta]
   \<and> \<not> isActive (alpha\<lparr>isActive := False\<rparr>)
   \<and> listProducts example_env [alpha\<lparr>isActive := False\<rparr>, beta] no_params
     = Success 200
        \<lparr>data = [populate example_env beta],
         pagination = \<lparr>currentPage = 1, totalPages = 1, totalProducts = 1,
                       hasNextPage = False, hasPrevPage = False, limit = 12\<rparr>,
         filters = \<lparr>a_category = None, a_minPrice = None, a_maxPrice = None,
                    a_search = None, a_sort = ''newest''\<rparr>\<rparr>
   \<and> isActive beta
   \<and> oid (populate example_env beta) \<noteq> oid (alpha\<lparr>isActive := False\<rparr>)
   \<and> getProduct example_env [alpha\<lparr>isActive := False\<rparr>, beta] ''64b7f3a2c19e4d0012ab34cd''
       = ([alpha\<lparr>isActive := False\<rparr>, beta], Failure 404 ''Product not found'' [])
   \<and> getProduct example_env [alpha\<lparr>isActive := False\<rparr>, beta] ''alpha''
       = ([alpha\<lparr>isActive := False\<rparr>, beta], Failure 404 ''Product not found'' [])
   \<and> epsilon\<lparr>isActive := False\<rparr> \<in> set [epsilon\<lparr>isActive := False\<rparr>, beta]
   \<and> \<not> isActive (epsilon\<lparr>isActive := False\<rparr>)
   \<and> isObjectIdString (slug (epsilon\<lparr>isActive := False\<rparr>))
   \<and> getProduct example_env [epsilon\<lparr>isActive := False\<rparr>, beta] (slug (epsilon\<lparr>isActive := False\<rparr>))
       = ([epsilon\<lparr>isActive := False\<rparr>, beta], Failure 404 ''Product not found'' [])
   \<and> alpha \<in> set [alpha, epsilon\<lparr>isActive := False\<rparr>] \<and> isActive alpha
   \<and> oid alpha = map lower_hex (slug (epsilon\<lparr>isActive := False\<rparr>))
   \<and> snd (getProduct example_env [alpha, epsilon\<lparr>isActive := False\<rparr>]
            (slug (epsilon\<lparr>isActive := False\<rparr>)))
       = Success 200 (populate example_env (alpha\<lparr>stats := (stats alpha)\<lparr>views := 6\<rparr>\<rparr>))
   \<and> oid (populate example_env (alpha\<lparr>stats := (stats alpha)\<lparr>views := 6\<rparr>\<rparr>))
       \<noteq> oid (epsilon\<lparr>isActive := False\<rparr>)"
  using inactive_products_hidden
          [of example_env no_params "[alpha\<lparr>isActive := False\<rparr>, beta]" 200
              "\<lparr>data = [populate example_env beta],
                pagination = \<lparr>currentPage = 1, totalPages = 1, totalProducts = 1,
                              hasNextPage = False, hasPrevPage = False, limit = 12\<rparr>,
                filters = \<lparr>a_category = None, a_minPrice = None, a_maxPrice = None,
                           a_search = None, a_sort = ''newest''\<rparr>\<rparr>"
              "alpha\<lparr>isActive := False\<rparr>" "''alpha''"]
        inactive_products_hidden
          [of example_env _ "[epsilon\<lparr>isActive := False\<rparr>, beta]" _ _
              "epsilon\<lparr>isActive := False\<rparr>"]
        inactive_products_hidden
          [of example_env _ "[alpha, epsilon\<lparr>isActive := False\<rparr>]" _ _
              "epsilon\<lparr>isActive := False\<rparr>" "''64b7f3a2c19e4d0012ab34cd''" alpha 200
              "populate example_env (alpha\<lparr>stats := (stats alpha)\<lparr>views := 6\<rparr>\<rparr>)"]
        list_inactive not_hex_alpha hex_alpha_id get_by_slug_of_hidden
  by (simp add: lower_hex_def)

text \<open>
  The store holds \<open>alpha\<close> and an inactive product whose slug is the id of \<open>alpha\<close>. GET
  by the slug of the inactive product answers 200, with \<open>alpha\<close>.
\<close>

theorem inactive_by_slug_counterexample:
  "\<not> isActive (epsilon\<lparr>isActive := False\<rparr>)
   \<and> slug (epsilon\<lparr>isActive := False\<rparr>) = ''64b7f3a2c19e4d0012ab34cd''
   \<and> epsilon\<lparr>isActive := False\<rparr> \<in> set [alpha, epsilon\<lparr>isActive := False\<rparr>]
   \<and> snd (getProduct example_env [alpha, epsilon\<lparr>isActive := False\<rparr>] ''64b7f3a2c19e4d0012ab34cd'')
       = Success 200 (populate example_env (alpha\<lparr>stats := (stats alpha)\<lparr>views := 6\<rparr>\<rparr>))"
  using get_by_slug_of_hidden by simp

subsection \<open>Relevance before the sort key\<close>

text \<open>
  C9. In a listing with a search term, the sort given to the store is the text score
  followed by the criteria of the sort key. So the products come by descending text
  score, and two products of equal score come in the order of the sort key's
  criteria: the listing is the populated form of documents in this order.
\<close>

theorem relevance_sorts_first:
  assumes ok: "listProducts env st q = Success n r" and s: "rq_search q = Some s"
  shows "build_sort q = (''score'', Meta ''textScore'')
           # resolve_sort (case rq_sort q of None \<Rightarrow> ''newest'' | Some k \<Rightarrow> k)
       \<and> (\<exists>docs. data r = map (populate env) docs
            \<and> sorted_wrt (\<lambda>a b. textScore env s b \<le> textScore env s a) docs
            \<and> sorted_wrt (\<lambda>a b. textScore env s a = textScore env s b \<longrightarrow>
                 sort_le env (build_query env q)
                   (resolve_sort (case rq_sort q of None \<Rightarrow> ''newest'' | Some k \<Rightarrow> k)) a b)
                docs)"
proof -
  define docs where "docs = find_docs env st (build_query env q) (build_sort q)
                       ((page_of q - 1) * limit_of q) (limit_of q)"
  from ok have v: "validate_list_query env q = []"
    and d: "data r = map (populate env) docs"
    by (simp_all add: listProducts_Success docs_def)
  from valid_search[OF v s] s have t: "truthy (rq_search q)"
    by (simp add: truthy_def)
  let ?cs = "resolve_sort (case rq_sort q of None \<Rightarrow> ''newest'' | Some k \<Rightarrow> k)"
  let ?f = "build_query env q"
  have b: "build_sort q = (''score'', Meta ''textScore'') # ?cs"
    using t by (simp add: build_sort_def)
  have sc: "score_of env ?f p = textScore env s p" for p
    using t s by (simp add: score_of_def f_text_build_query)
  have srt: "sorted_wrt (sort_le env ?f ((''score'', Meta ''textScore'') # ?cs)) docs"
    unfolding docs_def b by (rule sorted_find_docs)
  have 1: "sorted_wrt (\<lambda>a b. textScore env s b \<le> textScore env s a) docs"
    by (rule sorted_wrt_mono_rel[OF _ srt]) (auto simp: rank_def sc)
  have 2: "sorted_wrt (\<lambda>a b. textScore env s a = textScore env s b \<longrightarrow> sort_le env ?f ?cs a b)
             docs"
    by (rule sorted_wrt_mono_rel[OF _ srt]) (auto simp: rank_def sc)
  from b d 1 2 show ?thesis by blast
qed

lemma list_search:
  "listProducts example_env [beta\<lparr>description := ''alpha''\<rparr>, alpha]
     (no_params\<lparr>rq_search := Some ''alpha''\<rparr>)
     = Success 200
        \<lparr>data = [populate example_env alpha,
                 populate example_env (beta\<lparr>description := ''alpha''\<rparr>)],
         pagination = \<lparr>currentPage = 1, totalPages = 1, totalProducts = 2,
                       hasNextPage = False, hasPrevPage = False, limit = 12\<rparr>,
         filters = \<lparr>a_category = None, a_minPrice = None, a_maxPrice = None,
                    a_search = Some ''alpha'', a_sort = ''newest''\<rparr>\<rparr>"
  by (simp add: listProducts_def Let_def validate_list_query_def check_optional_def no_params_def
      page_of_def limit_of_def find_docs_def sort_docs_def countDocuments_def paginate_int
      build_query_def build_sort_def resolve_sort_def truthy_def matches_def
      rank_def score_of_def path_value_def)

theorem relevance_sorts_first_witness:
  "listProducts example_env [beta\<lparr>description := ''alpha''\<rparr>, alpha]
     (no_params\<lparr>rq_search := Some ''alpha''\<rparr>)
     = Success 200
        \<lparr>data = [populate example_env alpha,
                 populate example_env (beta\<lparr>description := ''alpha''\<rparr>)],
         pagination = \<lparr>currentPage = 1, totalPages = 1, totalProducts = 2,
                       hasNextPage = False, hasPrevPage = False, limit = 12\<rparr>,
         filters = \<lparr>a_category = None, a_minPrice = None, a_maxPrice = None,
                    a_search = Some ''alpha'', a_sort = ''newest''\<rparr>\<rparr>
   \<and> rq_search (no_params\<lparr>rq_search := Some ''alpha''\<rparr>) = Some ''alpha''
   \<and> build_sort (no_params\<lparr>rq_search := Some ''alpha''\<rparr>)
       = [(''score'', Meta ''textScore''), (''createdAt'', Dir (- 1))]
   \<and> textScore example_env ''alpha'' (beta\<lparr>description := ''alpha''\<rparr>)
       \<le> textScore example_env ''alpha'' alpha
   \<and> createdAt alpha < createdAt (beta\<lparr>description := ''alpha''\<rparr>)"
  using relevance_sorts_first[OF list_search, of "''alpha''"] list_search
  by (simp add: no_params_def resolve_sort_def)

subsection \<open>Identifiers of 24 hexadecimal digits\<close>

text \<open>
  C10, as the code has it. For an identifier of exactly 24 hexadecimal digits the
  handler looks the product up by id and by nothing else. The answer is 404 when no
  product has this id, also when a product has the identifier as its slug, and when the
  product of this id is not active; it is 200, with the product of this id, when that
  one is active. So a product that is returned has the identifier (in lower case digits)
  as its id, and a product that has the identifier as its slug and another id is not the
  one returned: under its slug, the call finds the active product of that id, if there
  is one.
\<close>

theorem id_shaped_identifier_by_id_only:
  assumes "isObjectIdString identifier"
  shows "lookup env st identifier = Inr (byId st (map lower_hex identifier))
       \<and> (byId st (map lower_hex identifier) = None \<longrightarrow>
            getProduct env st identifier = (st, Failure 404 ''Product not found'' []))
       \<and> (\<forall>p. byId st (map lower_hex identifier) = Some p \<and> \<not> isActive p \<longrightarrow>
            getProduct env st identifier = (st, Failure 404 ''Product not found'' []))
       \<and> (\<forall>p. byId st (map lower_hex identifier) = Some p \<and> isActive p \<longrightarrow>
            snd (getProduct env st identifier)
              = Success 200
                  (populate env (p\<lparr>stats := (stats p)\<lparr>views := views (stats p) + 1\<rparr>\<rparr>)))
       \<and> (\<forall>n r. snd (getProduct env st identifier) = Success n r \<longrightarrow>
            oid r = map lower_hex identifier \<and> byId st (oid r) \<noteq> None)
       \<and> (\<forall>g n r. slug g = identifier \<and> oid g \<noteq> map lower_hex identifier
            \<and> snd (getProduct env st identifier) = Success n r \<longrightarrow> oid r \<noteq> oid g)"
proof -
  have l: "lookup env st identifier = Inr (byId st (map lower_hex identifier))"
    using assms by (rule lookup_hex)
  show ?thesis
  proof (cases "byId st (map lower_hex identifier)")
    case None
    with l show ?thesis by (simp add: getProduct_cases)
  next
    case (Some p)
    with byId_Some have "oid p = map lower_hex identifier" by blast
    with l Some show ?thesis
      by (auto simp: getProduct_cases doc_bumpViews load_def)
  qed
qed

lemma get_by_slug_of_epsilon:
  "snd (getProduct example_env [alpha, epsilon] ''64b7f3a2c19e4d0012ab34cd'')
     = Success 200 (populate example_env (alpha\<lparr>stats := (stats alpha)\<lparr>views := 6\<rparr>\<rparr>))"
  using getProduct_found[of example_env "[alpha, epsilon]" "''64b7f3a2c19e4d0012ab34cd''" alpha]
  by (simp add: lookup_hex hex_alpha_id byId_def lower_hex_def)

theorem id_shaped_identifier_by_id_only_witness:
  "isObjectIdString ''aaaaaaaaaaaaaaaaaaaaaaaa''
   \<and> gamma \<in> set [alpha, gamma]
   \<and> slug gamma = ''aaaaaaaaaaaaaaaaaaaaaaaa''
   \<and> isActive gamma
   \<and> getProduct example_env [alpha, gamma] ''aaaaaaaaaaaaaaaaaaaaaaaa''
       = ([alpha, gamma], Failure 404 ''Product not found'' [])
   \<and> isObjectIdString ''64b7f3a2c19e4d0012ab34cd''
   \<and> byId [alpha\<lparr>isActive := False\<rparr>, epsilon] (map lower_hex ''64b7f3a2c19e4d0012ab34cd'')
       = Some (alpha\<lparr>isActive := False\<rparr>)
   \<and> getProduct example_env [alpha\<lparr>isActive := False\<rparr>, epsilon] ''64b7f3a2c19e4d0012ab34cd''
       = ([alpha\<lparr>isActive := False\<rparr>, epsilon], Failure 404 ''Product not found'' [])
   \<and> byId [alpha, epsilon] (map lower_hex ''64b7f3a2c19e4d0012ab34cd'') = Some alpha
   \<and> isActive alpha
   \<and> slug epsilon = ''64b7f3a2c19e4d0012ab34cd''
   \<and> oid epsilon \<noteq> map lower_hex ''64b7f3a2c19e4d0012ab34cd''
   \<and> snd (getProduct example_env [alpha, epsilon] ''64b7f3a2c19e4d0012ab34cd'')
       = Success 200 (populate example_env (alpha\<lparr>stats := (stats alpha)\<lparr>views := 6\<rparr>\<rparr>))
   \<and> oid (populate example_env (alpha\<lparr>stats := (stats alpha)\<lparr>views := 6\<rparr>\<rparr>)) \<noteq> oid epsilon"
  using id_shaped_identifier_by_id_only[OF hex_a, of example_env "[alpha, gamma]"] hex_a
    id_shaped_identifier_by_id_only
      [of "''64b7f3a2c19e4d0012ab34cd''" example_env "[alpha\<lparr>isActive := False\<rparr>, epsilon]"]
    id_shaped_identifier_by_id_only
      [of "''64b7f3a2c19e4d0012ab34cd''" example_env "[alpha, epsilon]"]
    hex_alpha_id
  by (auto simp: byId_def lower_hex_def)

text \<open>
  The store holds \<open>alpha\<close> and an active product whose slug is the id of \<open>alpha\<close> and whose
  id is another. GET by this slug answers 200, with \<open>alpha\<close>.
\<close>

theorem slug_of_another_id_counterexample:
  "isObjectIdString ''64b7f3a2c19e4d0012ab34cd''
   \<and> isActive epsilon
   \<and> slug epsilon = ''64b7f3a2c19e4d0012ab34cd''
   \<and> oid epsilon = ''64b7f3a2c19e4d0012ab34d1''
   \<and> epsilon \<in> set [alpha, epsilon]
   \<and> snd (getProduct example_env [alpha, epsilon] ''64b7f3a2c19e4d0012ab34cd'')
       = Success 200 (populate example_env (alpha\<lparr>stats := (stats alpha)\<lparr>views := 6\<rparr>\<rparr>))
   \<and> oid (populate example_env (alpha\<lparr>stats := (stats alpha)\<lparr>views := 6\<rparr>\<rparr>))
       = ''64b7f3a2c19e4d0012ab34cd''"
  using get_by_slug_of_epsilon hex_alpha_id by simp

subsection \<open>Helper facts: the assignments to a document\<close>

lemma isModified_markModified:
  "isModified (markModified path b d) q = (isModified d q \<or> (q = path \<and> (isNew d \<or> b)))"
  by (auto simp: markModified_def isModified_def)

lemma isModified_doc_update [simp]: "isModified (d\<lparr>doc := p\<rparr>) q = isModified d q"
  by (simp add: isModified_def)

lemma assign_None [simp]: "assign None setter d = d"
  by (simp add: assign_def)

lemma assign_Some [simp]: "assign (Some x) setter d = setter x d"
  by (simp add: assign_def)

lemma or_keep_simps [simp]: "or_keep None a = a" "or_keep (Some x) a = x"
  by (simp_all add: or_keep_def)

lemma doc_set_name [simp]: "doc (set_name x d) = (doc d)\<lparr>name := trim x\<rparr>"
  by (simp add: set_name_def)

lemma isNew_set_name [simp]: "isNew (set_name x d) = isNew d"
  by (simp add: set_name_def)

lemma isModified_set_name:
  "isModified (set_name x d) q = (isModified d q \<or> (q = ''name'' \<and> (isNew d \<or> trim x \<noteq> name (doc d))))"
  by (simp add: set_name_def isModified_markModified)

lemma doc_assign_set_name [simp]:
  "doc (assign v set_name d) = (doc d)\<lparr>name := or_keep (map_option trim v) (name (doc d))\<rparr>"
  by (cases v) simp_all

lemma isNew_assign_set_name [simp]: "isNew (assign v set_name d) = isNew d"
  by (cases v) simp_all

lemma isModified_assign_set_name:
  "isModified (assign v set_name d) q
     = (isModified d q \<or> (q = ''name'' \<and> v \<noteq> None \<and> (isNew d \<or> or_keep (map_option trim v) (name (doc d)) \<noteq> name (doc d))))"
  by (cases v) (simp_all add: isModified_set_name)

lemma doc_set_slug [simp]: "doc (set_slug x d) = (doc d)\<lparr>slug := x\<rparr>"
  by (simp add: set_slug_def)

lemma isNew_set_slug [simp]: "isNew (set_slug x d) = isNew d"
  by (simp add: set_slug_def)

lemma isModified_set_slug:
  "isModified (set_slug x d) q = (isModified d q \<or> (q = ''slug'' \<and> (isNew d \<or> x \<noteq> slug (doc d))))"
  by (simp add: set_slug_def isModified_markModified)

lemma doc_assign_set_slug [simp]:
  "doc (assign v set_slug d) = (doc d)\<lparr>slug := or_keep (v) (slug (doc d))\<rparr>"
  by (cases v) simp_all

lemma isNew_assign_set_slug [simp]: "isNew (assign v set_slug d) = isNew d"
  by (cases v) simp_all

lemma isModified_assign_set_slug:
  "isModified (assign v set_slug d) q
     = (isModified d q \<or> (q = ''slug'' \<and> v \<noteq> None \<and> (isNew d \<or> or_keep (v) (slug (doc d)) \<noteq> slug (doc d))))"
  by (cases v) (simp_all add: isModified_set_slug)

lemma doc_set_description [simp]: "doc (set_description x d) = (doc d)\<lparr>description := x\<rparr>"
  by (simp add: set_description_def)

lemma isNew_set_description [simp]: "isNew (set_description x d) = isNew d"
  by (simp add: set_description_def)

lemma isModified_set_description:
  "isModified (set_description x d) q = (isModified d q \<or> (q = ''description'' \<and> (isNew d \<or> x \<noteq> description (doc d))))"
  by (simp add: set_description_def isModified_markModified)

lemma doc_assign_set_description [simp]:
  "doc (assign v set_description d) = (doc d)\<lparr>description := or_keep (v) (description (doc d))\<rparr>"
  by (cases v) simp_all

lemma isNew_assign_set_description [simp]: "isNew (assign v set_description d) = isNew d"
  by (cases v) simp_all

lemma isModified_assign_set_description:
  "isModified (assign v set_description d) q
     = (isModified d q \<or> (q = ''description'' \<and> v \<noteq> None \<and> (isNew d \<or> or_keep (v) (description (doc d)) \<noteq> description (doc d))))"
  by (cases v) (simp_all add: isModified_set_description)

lemma doc_set_price [simp]: "doc (set_price x d) = (doc d)\<lparr>price := x\<rparr>"
  by (simp add: set_price_def)

lemma isNew_set_price [simp]: "isNew (set_price x d) = isNew d"
  by (simp add: set_price_def)

lemma isModified_set_price:
  "isModified (set_price x d) q = (isModified d q \<or> (q = ''price'' \<and> (isNew d \<or> x \<noteq> price (doc d))))"
  by (simp add: set_price_def isModified_markModified)

lemma doc_assign_set_price [simp]:
  "doc (assign v set_price d) = (doc d)\<lparr>price := or_keep (v) (price (doc d))\<rparr>"
  by (cases v) simp_all

lemma isNew_assign_set_price [simp]: "isNew (assign v set_price d) = isNew d"
  by (cases v) simp_all

lemma isModified_assign_set_price:
  "isModified (assign v set_price d) q
     = (isModified d q \<or> (q = ''price'' \<and> v \<noteq> None \<and> (isNew d \<or> or_keep (v) (price (doc d)) \<noteq> price (doc d))))"
  by (cases v) (simp_all add: isModified_set_price)

lemma doc_set_category [simp]: "doc (set_category x d) = (doc d)\<lparr>category := x\<rparr>"
  by (simp add: set_category_def)

lemma isNew_set_category [simp]: "isNew (set_category x d) = isNew d"
  by (simp add: set_category_def)

lemma isModified_set_category:
  "isModified (set_category x d) q = (isModified d q \<or> (q = ''category'' \<and> (isNew d \<or> x \<noteq> category (doc d))))"
  by (simp add: set_category_def isModified_markModified)

lemma doc_assign_set_category [simp]:
  "doc (assign v set_category d) = (doc d)\<lparr>category := or_keep (v) (category (doc d))\<rparr>"
  by (cases v) simp_all

lemma isNew_assign_set_category [simp]: "isNew (assign v set_category d) = isNew d"
  by (cases v) simp_all

lemma isModified_assign_set_category:
  "isModified (assign v set_category d) q
     = (isModified d q \<or> (q = ''category'' \<and> v \<noteq> None \<and> (isNew d \<or> or_keep (v) (category (doc d)) \<noteq> category (doc d))))"
  by (cases v) (simp_all add: isModified_set_category)

lemma doc_set_images [simp]: "doc (set_images x d) = (doc d)\<lparr>images := x\<rparr>"
  by (simp add: set_images_def)

lemma isNew_set_images [simp]: "isNew (set_images x d) = isNew d"
  by (simp add: set_images_def)

lemma isModified_set_images:
  "isModified (set_images x d) q = (isModified d q \<or> (q = ''images'' \<and> (isNew d \<or> True)))"
  by (simp add: set_images_def isModified_markModified)

lemma doc_assign_set_images [simp]:
  "doc (assign v set_images d) = (doc d)\<lparr>images := or_keep (v) (images (doc d))\<rparr>"
  by (cases v) simp_all

lemma isNew_assign_set_images [simp]: "isNew (assign v set_images d) = isNew d"
  by (cases v) simp_all

lemma isModified_assign_set_images:
  "isModified (assign v set_images d) q
     = (isModified d q \<or> (q = ''images'' \<and> v \<noteq> None \<and> (isNew d \<or> True)))"
  by (cases v) (simp_all add: isModified_set_images)

lemma doc_set_isActive [simp]: "doc (set_isActive x d) = (doc d)\<lparr>isActive := x\<rparr>"
  by (simp add: set_isActive_def)

lemma isNew_set_isActive [simp]: "isNew (set_isActive x d) = isNew d"
  by (simp add: set_isActive_def)

lemma isModified_set_isActive:
  "isModified (set_isActive x d) q = (isModified d q \<or> (q = ''isActive'' \<and> (isNew d \<or> x \<noteq> isActive (doc d))))"
  by (simp add: set_isActive_def isModified_markModified)

lemma doc_assign_set_isActive [simp]:
  "doc (assign v set_isActive d) = (doc d)\<lparr>isActive := or_keep (v) (isActive (doc d))\<rparr>"
  by (cases v) simp_all

lemma isNew_assign_set_isActive [simp]: "isNew (assign v set_isActive d) = isNew d"
  by (cases v) simp_all

lemma isModified_assign_set_isActive:
  "isModified (assign v set_isActive d) q
     = (isModified d q \<or> (q = ''isActive'' \<and> v \<noteq> None \<and> (isNew d \<or> or_keep (v) (isActive (doc d)) \<noteq> isActive (doc d))))"
  by (cases v) (simp_all add: isModified_set_isActive)

lemma doc_set_isFeatured [simp]: "doc (set_isFeatured x d) = (doc d)\<lparr>isFeatured := x\<rparr>"
  by (simp add: set_isFeatured_def)

lemma isNew_set_isFeatured [simp]: "isNew (set_isFeatured x d) = isNew d"
  by (simp add: set_isFeatured_def)

lemma isModified_set_isFeatured:
  "isModified (set_isFeatured x d) q = (isModified d q \<or> (q = ''isFeatured'' \<and> (isNew d \<or> x \<noteq> isFeatured (doc d))))"
  by (simp add: set_isFeatured_def isModified_markModified)

lemma doc_assign_set_isFeatured [simp]:
  "doc (assign v set_isFeatured d) = (doc d)\<lparr>isFeatured := or_keep (v) (isFeatured (doc d))\<rparr>"
  by (cases v) simp_all

lemma isNew_assign_set_isFeatured [simp]: "isNew (assign v set_isFeatured d) = isNew d"
  by (cases v) simp_all

lemma isModified_assign_set_isFeatured:
  "isModified (assign v set_isFeatured d) q
     = (isModified d q \<or> (q = ''isFeatured'' \<and> v \<noteq> None \<and> (isNew d \<or> or_keep (v) (isFeatured (doc d)) \<noteq> isFeatured (doc d))))"
  by (cases v) (simp_all add: isModified_set_isFeatured)

lemma doc_set_stats [simp]: "doc (set_stats x d) = (doc d)\<lparr>stats := x\<rparr>"
  by (simp add: set_stats_def)

lemma isNew_set_stats [simp]: "isNew (set_stats x d) = isNew d"
  by (simp add: set_stats_def)

lemma isModified_set_stats:
  "isModified (set_stats x d) q = (isModified d q \<or> (q = ''stats'' \<and> (isNew d \<or> x \<noteq> stats (doc d))))"
  by (simp add: set_stats_def isModified_markModified)

lemma doc_assign_set_stats [simp]:
  "doc (assign v set_stats d) = (doc d)\<lparr>stats := or_keep (v) (stats (doc d))\<rparr>"
  by (cases v) simp_all

lemma isNew_assign_set_stats [simp]: "isNew (assign v set_stats d) = isNew d"
  by (cases v) simp_all

lemma isModified_assign_set_stats:
  "isModified (assign v set_stats d) q
     = (isModified d q \<or> (q = ''stats'' \<and> v \<noteq> None \<and> (isNew d \<or> or_keep (v) (stats (doc d)) \<noteq> stats (doc d))))"
  by (cases v) (simp_all add: isModified_set_stats)

lemma doc_set_createdBy [simp]: "doc (set_createdBy x d) = (doc d)\<lparr>createdBy := x\<rparr>"
  by (simp add: set_createdBy_def)

lemma isNew_set_createdBy [simp]: "isNew (set_createdBy x d) = isNew d"
  by (simp add: set_createdBy_def)

lemma isModified_set_createdBy:
  "isModified (set_createdBy x d) q = (isModified d q \<or> (q = ''createdBy'' \<and> (isNew d \<or> x \<noteq> createdBy (doc d))))"
  by (simp add: set_createdBy_def isModified_markModified)

lemma doc_assign_set_createdBy [simp]:
  "doc (assign v set_createdBy d) = (doc d)\<lparr>createdBy := or_keep (v) (createdBy (doc d))\<rparr>"
  by (cases v) simp_all

lemma isNew_assign_set_createdBy [simp]: "isNew (assign v set_createdBy d) = isNew d"
  by (cases v) simp_all

lemma isModified_assign_set_createdBy:
  "isModified (assign v set_createdBy d) q
     = (isModified d q \<or> (q = ''createdBy'' \<and> v \<noteq> None \<and> (isNew d \<or> or_keep (v) (createdBy (doc d)) \<noteq> createdBy (doc d))))"
  by (cases v) (simp_all add: isModified_set_createdBy)

lemma doc_set_updatedBy [simp]: "doc (set_updatedBy x d) = (doc d)\<lparr>updatedBy := Some x\<rparr>"
  by (simp add: set_updatedBy_def)

lemma isNew_set_updatedBy [simp]: "isNew (set_updatedBy x d) = isNew d"
  by (simp add: set_updatedBy_def)

lemma isModified_set_updatedBy:
  "isModified (set_updatedBy x d) q = (isModified d q \<or> (q = ''updatedBy'' \<and> (isNew d \<or> Some x \<noteq> updatedBy (doc d))))"
  by (simp add: set_updatedBy_def isModified_markModified)

lemma doc_assign_set_updatedBy [simp]:
  "doc (assign v set_updatedBy d) = (doc d)\<lparr>updatedBy := or_keep (map_option Some v) (updatedBy (doc d))\<rparr>"
  by (cases v) simp_all

lemma isNew_assign_set_updatedBy [simp]: "isNew (assign v set_updatedBy d) = isNew d"
  by (cases v) simp_all

lemma isModified_assign_set_updatedBy:
  "isModified (assign v set_updatedBy d) q
     = (isModified d q \<or> (q = ''updatedBy'' \<and> v \<noteq> None \<and> (isNew d \<or> or_keep (map_option Some v) (updatedBy (doc d)) \<noteq> updatedBy (doc d))))"
  by (cases v) (simp_all add: isModified_set_updatedBy)

lemmas isModified_assigns = isModified_assign_set_name isModified_assign_set_slug
  isModified_assign_set_description isModified_assign_set_price isModified_assign_set_category
  isModified_assign_set_images isModified_assign_set_isActive isModified_assign_set_isFeatured
  isModified_assign_set_stats isModified_assign_set_createdBy isModified_assign_set_updatedBy

lemma doc_assign_body:
  "doc (assign_body b d) =
     (doc d)\<lparr>name := or_keep (map_option trim (b_name b)) (name (doc d)),
             slug := or_keep (b_slug b) (slug (doc d)),
             description := or_keep (b_description b) (description (doc d)),
             price := or_keep (b_price b) (price (doc d)),
             category := or_keep (b_category b) (category (doc d)),
             images := or_keep (b_images b) (images (doc d)),
             isActive := or_keep (b_isActive b) (isActive (doc d)),
             isFeatured := or_keep (b_isFeatured b) (isFeatured (doc d)),
             stats := or_keep (b_stats b) (stats (doc d)),
             createdBy := or_keep (b_createdBy b) (createdBy (doc d)),
             updatedBy := or_keep (map_option Some (b_updatedBy b)) (updatedBy (doc d))\<rparr>"
  by (simp add: assign_body_def Let_def)

lemma isNew_assign_body [simp]: "isNew (assign_body b d) = isNew d"
  by (simp add: assign_body_def Let_def)

lemma isModified_assign_body:
  "isModified (assign_body b d) q
     = (isModified d q
        \<or> (q = ''name'' \<and> b_name b \<noteq> None
             \<and> (isNew d \<or> or_keep (map_option trim (b_name b)) (name (doc d)) \<noteq> name (doc d)))
        \<or> (q = ''slug'' \<and> b_slug b \<noteq> None
             \<and> (isNew d \<or> or_keep (b_slug b) (slug (doc d)) \<noteq> slug (doc d)))
        \<or> (q = ''description'' \<and> b_description b \<noteq> None
             \<and> (isNew d \<or> or_keep (b_description b) (description (doc d)) \<noteq> description (doc d)))
        \<or> (q = ''price'' \<and> b_price b \<noteq> None
             \<and> (isNew d \<or> or_keep (b_price b) (price (doc d)) \<noteq> price (doc d)))
        \<or> (q = ''category'' \<and> b_category b \<noteq> None
             \<and> (isNew d \<or> or_keep (b_category b) (category (doc d)) \<noteq> category (doc d)))
        \<or> (q = ''images'' \<and> b_images b \<noteq> None)
        \<or> (q = ''isActive'' \<and> b_isActive b \<noteq> None
             \<and> (isNew d \<or> or_keep (b_isActive b) (isActive (doc d)) \<noteq> isActive (doc d)))
        \<or> (q = ''isFeatured'' \<and> b_isFeatured b \<noteq> None
             \<and> (isNew d \<or> or_keep (b_isFeatured b) (isFeatured (doc d)) \<noteq> isFeatured (doc d)))
        \<or> (q = ''stats'' \<and> b_stats b \<noteq> None
             \<and> (isNew d \<or> or_keep (b_stats b) (stats (doc d)) \<noteq> stats (doc d)))
        \<or> (q = ''createdBy'' \<and> b_createdBy b \<noteq> None
             \<and> (isNew d \<or> or_keep (b_createdBy b) (createdBy (doc d)) \<noteq> createdBy (doc d)))
        \<or> (q = ''updatedBy'' \<and> b_updatedBy b \<noteq> None
             \<and> (isNew d \<or> or_keep (map_option Some (b_updatedBy b)) (updatedBy (doc d)) \<noteq> updatedBy (doc d))))"
  unfolding assign_body_def Let_def
  by (simp only: isModified_assigns doc_assign_set_name doc_assign_set_slug doc_assign_set_description
        doc_assign_set_price doc_assign_set_category doc_assign_set_images doc_assign_set_isActive
        doc_assign_set_isFeatured doc_assign_set_stats doc_assign_set_createdBy
        isNew_assign_set_name isNew_assign_set_slug isNew_assign_set_description
        isNew_assign_set_price isNew_assign_set_category isNew_assign_set_images isNew_assign_set_isActive
        isNew_assign_set_isFeatured isNew_assign_set_stats isNew_assign_set_createdBy) 
     (simp add: disj_ac)

subsection \<open>Helper facts: the write of the modified paths\<close>

lemma write_path_fields [simp]:
  "oid (write_path src path dst) = oid dst"
  "createdAt (write_path src path dst) = createdAt dst"
  by (simp_all add: write_path_def)

lemma write_path_agree:
  "slug src = slug dst \<Longrightarrow> slug (write_path src path dst) = slug dst"
  "stats src = stats dst \<Longrightarrow> stats (write_path src path dst) = stats dst"
  "createdBy src = createdBy dst \<Longrightarrow> createdBy (write_path src path dst) = createdBy dst"
  by (simp_all add: write_path_def)

lemma write_path_isActive:
  "isActive (write_path src path dst) = (if path = ''isActive'' then isActive src else isActive dst)"
  by (simp add: write_path_def)

lemma fold_write_path_oid [simp]: "oid (fold (write_path src) ps dst) = oid dst"
  by (induction ps arbitrary: dst) simp_all

lemma fold_write_path_slug:
  "slug src = slug dst \<Longrightarrow> slug (fold (write_path src) ps dst) = slug dst"
  by (induction ps arbitrary: dst) (simp_all add: write_path_agree)

lemma fold_write_path_stats:
  "stats src = stats dst \<Longrightarrow> stats (fold (write_path src) ps dst) = stats dst"
  by (induction ps arbitrary: dst) (simp_all add: write_path_agree)

lemma fold_write_path_createdBy:
  "createdBy src = createdBy dst \<Longrightarrow> createdBy (fold (write_path src) ps dst) = createdBy dst"
  by (induction ps arbitrary: dst) (simp_all add: write_path_agree)

lemma fold_write_path_isActive:
  "isActive (fold (write_path src) ps dst)
     = (if ''isActive'' \<in> set ps then isActive src else isActive dst)"
  by (induction ps arbitrary: dst) (auto simp: write_path_isActive)

lemma oid_write_modified [simp]: "oid (write_modified d dst) = oid dst"
  by (simp add: write_modified_def)

lemma isActive_write_modified:
  "isActive (write_modified d dst)
     = (if isModified d ''isActive'' then isActive (doc d) else isActive dst)"
  by (simp add: write_modified_def fold_write_path_isActive isModified_def)

subsection \<open>Helper facts: the hooks and save\<close>

lemma doc_slug_hook:
  "doc (slug_hook env d)
     = (if isModified d ''name'' then (doc d)\<lparr>slug := slugify env (name (doc d))\<rparr> else doc d)"
  by (simp add: slug_hook_def)

lemma isNew_slug_hook [simp]: "isNew (slug_hook env d) = isNew d"
  by (simp add: slug_hook_def)

lemma isModified_slug_hook:
  "q \<noteq> ''slug'' \<Longrightarrow> isModified (slug_hook env d) q = isModified d q"
  by (simp add: slug_hook_def isModified_set_slug)

lemma doc_images_hook:
  "doc (images_hook d)
     = (if isModified d ''images'' then (doc d)\<lparr>images := ensure_one_primary (images (doc d))\<rparr>
        else doc d)"
  by (simp add: images_hook_def)

lemma isNew_images_hook [simp]: "isNew (images_hook d) = isNew d"
  by (simp add: images_hook_def)

lemma isModified_images_hook [simp]: "isModified (images_hook d) q = isModified d q"
  by (simp add: images_hook_def isModified_def)

lemma hooks_fields [simp]:
  "oid (doc (images_hook (slug_hook env d))) = oid (doc d)"
  "isActive (doc (images_hook (slug_hook env d))) = isActive (doc d)"
  "stats (doc (images_hook (slug_hook env d))) = stats (doc d)"
  "createdBy (doc (images_hook (slug_hook env d))) = createdBy (doc d)"
  by (simp_all add: doc_images_hook doc_slug_hook)

lemma slug_hooks:
  "slug (doc (images_hook (slug_hook env d)))
     = (if isModified d ''name'' then slugify env (name (doc d)) else slug (doc d))"
  by (simp add: doc_images_hook doc_slug_hook)

lemma save_loaded:
  assumes "\<not> isNew d" and "save env st d = Inr (st', d')"
  shows "\<exists>old. byId st (oid (doc d)) = Some old
           \<and> st' = replace_first (oid (doc d)) (write_modified (images_hook (slug_hook env d)) old) st"
  using assms
  by (auto simp: save_def Let_def updateOne_def dest: byId_Some split: if_splits option.splits sum.splits)

lemma list_all2_replace_first:
  assumes "byId st i = Some old" and "R old new" and "\<And>x. R x x"
  shows "list_all2 R st (replace_first i new st)"
  using assms(1)
proof (induction st)
  case Nil
  then show ?case by simp
next
  case (Cons p ps)
  show ?case
  proof (cases "oid p = i")
    case True
    with Cons.prems have "p = old" by (simp add: byId_def)
    with True assms(2,3) show ?thesis by (simp add: list_all2_refl)
  next
    case False
    with Cons show ?thesis by (simp add: byId_def assms(3))
  qed
qed

lemma byId_replace_first:
  "byId st i = Some old \<Longrightarrow> oid new = i \<Longrightarrow> byId (replace_first i new st) i = Some new"
  by (induction st) (auto simp: byId_def)

lemma byId_self: "byId st i = Some p \<Longrightarrow> byId st (oid p) = Some p"
  using byId_Some[of st i p] by simp

lemma findById_Some: "findById env st i = Inr (Some p) \<Longrightarrow> byId st (oid p) = Some p"
  by (auto simp: findById_def dest: byId_self split: if_splits option.splits)

lemma updateProduct_cases:
  "updateProduct env st req_user i b = (st', resp) \<Longrightarrow>
     st' = st
     \<or> (\<exists>u p d'. admin req_user = Inr u \<and> validate_update b = [] \<and> findById env st i = Inr (Some p)
           \<and> save env st (set_updatedBy (uid u) (assign_body (sanitize b) (load p))) = Inr (st', d')
           \<and> resp = Success 200 (populate env (doc d')))"
  by (auto simp: updateProduct_def Let_def split: sum.splits if_splits option.splits prod.splits)

lemma sanitize_fields [simp]:
  "b_slug (sanitize b) = b_slug b" "b_stats (sanitize b) = b_stats b"
  "b_createdBy (sanitize b) = b_createdBy b" "b_isActive (sanitize b) = b_isActive b"
  "b_name (sanitize b) = map_option trim (b_name b)"
  "b_images (sanitize b) = b_images b"
  by (simp_all add: sanitize_def)

lemma load_fields [simp]: "doc (load p) = p" "\<not> isNew (load p)" "\<not> isModified (load p) q"
  by (simp_all add: load_def isModified_def)

lemma fold_write_path_stats_whole:
  "''stats.views'' \<notin> set ps \<Longrightarrow> ''stats.downloads'' \<notin> set ps \<Longrightarrow> ''stats.sales'' \<notin> set ps \<Longrightarrow>
     stats (fold (write_path src) ps dst) = (if ''stats'' \<in> set ps then stats src else stats dst)"
proof (induction ps arbitrary: dst)
  case Nil
  then show ?case by simp
next
  case (Cons a ps)
  then have IH: "stats (fold (write_path src) ps (write_path src a dst))
                   = (if ''stats'' \<in> set ps then stats src else stats (write_path src a dst))"
    by simp
  from Cons.prems have "a \<noteq> ''stats.views''" "a \<noteq> ''stats.downloads''" "a \<noteq> ''stats.sales''"
    by auto
  then have "stats (write_path src a dst) = (if a = ''stats'' then stats src else stats dst)"
    by (simp add: write_path_def)
  with IH show ?case by simp
qed

lemma fold_write_path_createdBy_whole:
  "createdBy (fold (write_path src) ps dst)
     = (if ''createdBy'' \<in> set ps then createdBy src else createdBy dst)"
  by (induction ps arbitrary: dst) (auto simp: write_path_def)

lemma fold_write_path_slug_whole:
  "slug (fold (write_path src) ps dst) = (if ''slug'' \<in> set ps then slug src else slug dst)"
  by (induction ps arbitrary: dst) (auto simp: write_path_def)

lemma stats_write_modified:
  "\<not> isModified d ''stats.views'' \<Longrightarrow> \<not> isModified d ''stats.downloads'' \<Longrightarrow>
   \<not> isModified d ''stats.sales'' \<Longrightarrow>
     stats (write_modified d dst) = (if isModified d ''stats'' then stats (doc d) else stats dst)"
  by (simp add: write_modified_def isModified_def fold_write_path_stats_whole)

lemma createdBy_write_modified:
  "createdBy (write_modified d dst)
     = (if isModified d ''createdBy'' then createdBy (doc d) else createdBy dst)"
  by (simp add: write_modified_def isModified_def fold_write_path_createdBy_whole)

lemma slug_write_modified:
  "slug (write_modified d dst) = (if isModified d ''slug'' then slug (doc d) else slug dst)"
  by (simp add: write_modified_def isModified_def fold_write_path_slug_whole)

lemma name_hooks [simp]: "name (doc (images_hook (slug_hook env d))) = name (doc d)"
  by (simp add: doc_images_hook doc_slug_hook)

lemma update_success:
  assumes "updateProduct env st req_user i b = (st', Success n r)"
  shows "\<exists>(u::user) p d'. admin req_user = Inr u \<and> validate_update b = [] \<and> findById env st i = Inr (Some p)
           \<and> save env st (set_updatedBy (uid u) (assign_body (sanitize b) (load p))) = Inr (st', d')
           \<and> r = populate env (doc d') \<and> n = 200"
  using assms
  by (auto simp: updateProduct_def Let_def split: sum.splits if_splits option.splits prod.splits)

lemma save_doc:
  "save env st d = Inr (st', d') \<Longrightarrow> doc d' = doc (images_hook (slug_hook env d))"
  by (auto simp: save_def Let_def split: if_splits sum.splits)

lemma update_copies:
  assumes "updateProduct env st req_user i b = (st', Success n r)"
  shows "\<exists>p p'. findById env st i = Inr (Some p) \<and> byId st' (oid p) = Some p' \<and> oid r = oid p
           \<and> stats p' = or_keep (b_stats b) (stats p)
           \<and> createdBy p' = or_keep (b_createdBy b) (createdBy p)
           \<and> slug p' = (if name r \<noteq> name p then slugify env (name r)
                         else or_keep (b_slug b) (slug p))"
proof -
  from update_success[OF assms] obtain u :: user and p d' where
    f: "findById env st i = Inr (Some p)"
    and s: "save env st (set_updatedBy (uid u) (assign_body (sanitize b) (load p))) = Inr (st', d')"
    and r: "r = populate env (doc d')"
    by auto
  let ?d = "set_updatedBy (uid u) (assign_body (sanitize b) (load p))"
  let ?h = "images_hook (slug_hook env ?d)"
  have n: "\<not> isNew ?d" by simp
  have o: "oid (doc ?d) = oid p" by (simp add: doc_assign_body)
  from findById_Some[OF f] have old: "byId st (oid p) = Some p" .
  from save_loaded[OF n s] o old
  have st': "st' = replace_first (oid p) (write_modified ?h p) st" by simp
  have by': "byId st' (oid p) = Some (write_modified ?h p)"
    unfolding st' using old by (rule byId_replace_first) simp
  let ?g = "slug_hook env ?d"
  have leaf: "\<not> isModified ?g ''stats.views''" "\<not> isModified ?g ''stats.downloads''"
    "\<not> isModified ?g ''stats.sales''"
    by (simp_all add: isModified_slug_hook isModified_set_updatedBy isModified_assign_body)
  have ms: "isModified ?g ''stats'' = (b_stats b \<noteq> None \<and> or_keep (b_stats b) (stats p) \<noteq> stats p)"
    by (simp add: isModified_slug_hook isModified_set_updatedBy isModified_assign_body)
  have mc: "isModified ?g ''createdBy''
              = (b_createdBy b \<noteq> None \<and> or_keep (b_createdBy b) (createdBy p) \<noteq> createdBy p)"
    by (simp add: isModified_slug_hook isModified_set_updatedBy isModified_assign_body)
  have 1: "stats (write_modified ?h p) = or_keep (b_stats b) (stats p)"
    by (cases "b_stats b") (simp_all add: stats_write_modified leaf ms doc_assign_body)
  have 2: "createdBy (write_modified ?h p) = or_keep (b_createdBy b) (createdBy p)"
    by (cases "b_createdBy b") (simp_all add: createdBy_write_modified mc doc_assign_body)
  have 3: "oid r = oid p"
    using save_doc[OF s] r by (simp add: doc_assign_body)
  have nr: "name r = name (doc ?d)"
    using save_doc[OF s] r by simp
  have nm: "isModified ?d ''name'' = (name (doc ?d) \<noteq> name p)"
    by (cases "b_name b")
       (simp_all add: isModified_set_updatedBy isModified_assign_body doc_assign_body)
  have sm: "isModified ?d ''slug'' = (slug (doc ?d) \<noteq> slug p)"
    by (cases "b_slug b")
       (simp_all add: isModified_set_updatedBy isModified_assign_body doc_assign_body)
  have sd: "slug (doc ?d) = or_keep (b_slug b) (slug p)"
    by (simp add: doc_assign_body)
  have 4: "slug (write_modified ?h p)
          = (if name r \<noteq> name p then slugify env (name r) else or_keep (b_slug b) (slug p))"
  proof (cases "name (doc ?d) = name p")
    case True
    with nm have "slug_hook env ?d = ?d" by (simp add: slug_hook_def)
    with True nr sm sd show ?thesis
      by (auto simp: slug_write_modified doc_images_hook)
  next
    case False
    with nm have h: "slug_hook env ?d = set_slug (slugify env (name (doc ?d))) ?d"
      by (simp add: slug_hook_def)
    with False nr sm sd show ?thesis
      by (auto simp: slug_write_modified doc_images_hook isModified_set_slug)
  qed
  from f by' 1 2 3 4 show ?thesis by blast
qed

lemma update_stats_down:
  "updateProduct example_env [alpha] (Some example_admin) ''64b7f3a2c19e4d0012ab34cd''
     (no_fields\<lparr>b_stats := Some \<lparr>views = 0, downloads = 0, sales = 0, rating = \<lparr>average = 0, count = 0\<rparr>\<rparr>,
                 b_createdBy := Some ''64b7f3a2c19e4d0012ab0002'',
                 b_slug := Some ''omega''\<rparr>)
   = ([alpha\<lparr>slug := ''omega'',
             stats := \<lparr>views = 0, downloads = 0, sales = 0, rating = \<lparr>average = 0, count = 0\<rparr>\<rparr>,
             createdBy := ''64b7f3a2c19e4d0012ab0002'',
             updatedBy := Some ''64b7f3a2c19e4d0012ab0001''\<rparr>],
      Success 200
        (populate example_env
           (alpha\<lparr>slug := ''omega'',
              stats := \<lparr>views = 0, downloads = 0, sales = 0, rating = \<lparr>average = 0, count = 0\<rparr>\<rparr>,
              createdBy := ''64b7f3a2c19e4d0012ab0002'',
              updatedBy := Some ''64b7f3a2c19e4d0012ab0001''\<rparr>)))"
  by (simp add: updateProduct_def admin_def validate_update_def check_optional_def no_fields_def
      findById_def hex_alpha_id byId_def save_def validate_def Let_def categories_def
      sanitize_def
      updateOne_def write_modified_def write_path_def lower_hex_def
      assign_body_def assign_def set_name_def set_slug_def set_description_def set_price_def
      set_category_def set_images_def set_isActive_def set_isFeatured_def set_stats_def
      set_createdBy_def set_updatedBy_def markModified_def isModified_def load_def
      slug_hook_def images_hook_def)

lemma update_frame:
  assumes "b_name b = None" "b_slug b = None" "b_stats b = None" "b_createdBy b = None"
  shows "list_all2 (\<lambda>q q'. oid q' = oid q \<and> slug q' = slug q \<and> stats q' = stats q \<and> createdBy q' = createdBy q)
           st (fst (updateProduct env st req_user i b))"
proof -
  let ?R = "\<lambda>q q'. oid q' = oid q \<and> slug q' = slug q \<and> stats q' = stats q \<and> createdBy q' = createdBy q"
  obtain st' resp where r: "updateProduct env st req_user i b = (st', resp)"
    by (cases "updateProduct env st req_user i b")
  from updateProduct_cases[OF r] show ?thesis
  proof
    assume "st' = st"
    with r show ?thesis by (simp add: list_all2_refl)
  next
    assume "\<exists>(u::user) p d'. admin req_user = Inr u \<and> validate_update b = [] \<and> findById env st i = Inr (Some p)
           \<and> save env st (set_updatedBy (uid u) (assign_body (sanitize b) (load p))) = Inr (st', d')
           \<and> resp = Success 200 (populate env (doc d'))"
    then obtain u :: user and p d' where f: "findById env st i = Inr (Some p)"
      and s: "save env st (set_updatedBy (uid u) (assign_body (sanitize b) (load p))) = Inr (st', d')"
      by auto
    let ?d = "set_updatedBy (uid u) (assign_body (sanitize b) (load p))"
    let ?h = "images_hook (slug_hook env ?d)"
    have n: "\<not> isNew ?d" by simp
    have o: "oid (doc ?d) = oid p" by (simp add: doc_assign_body)
    from findById_Some[OF f] have old: "byId st (oid p) = Some p" .
    from save_loaded[OF n s] o old
    have st': "st' = replace_first (oid p) (write_modified ?h p) st" by simp
    have nm: "\<not> isModified ?d ''name''"
      using assms(1) by (simp add: isModified_set_updatedBy isModified_assign_body)
    have "slug (doc ?h) = slug p" "stats (doc ?h) = stats p" "createdBy (doc ?h) = createdBy p"
      using assms nm by (simp_all add: slug_hooks doc_assign_body)
    then have "?R p (write_modified ?h p)"
      by (simp add: write_modified_def fold_write_path_slug fold_write_path_stats fold_write_path_createdBy)
    with old have "list_all2 ?R st (replace_first (oid p) (write_modified ?h p) st)"
      by (intro list_all2_replace_first[where old = p]) simp_all
    with st' r show ?thesis by simp
  qed
qed

subsection \<open>Helper facts: what a call does to the active flags\<close>

lemma save_keeps:
  assumes n: "\<not> isNew d" and s: "save env st d = Inr (st', d')"
    and a: "\<And>old. isModified d ''isActive'' \<Longrightarrow> isActive (doc d) \<Longrightarrow> byId st (oid (doc d)) = Some old \<Longrightarrow> isActive old"
  shows "list_all2 (\<lambda>q q'. oid q' = oid q \<and> (isActive q' \<longrightarrow> isActive q)) st st'"
proof -
  let ?h = "images_hook (slug_hook env d)"
  from save_loaded[OF n s] obtain old where old: "byId st (oid (doc d)) = Some old"
    and st': "st' = replace_first (oid (doc d)) (write_modified ?h old) st"
    by blast
  have "isActive (write_modified ?h old) \<longrightarrow> isActive old"
    using a[OF _ _ old] by (auto simp: isActive_write_modified isModified_slug_hook)
  then show ?thesis
    unfolding st' using old by (intro list_all2_replace_first[where old = old]) simp_all
qed

lemma isModified_bumpViews: "isModified (bumpViews d) q = (isModified d q \<or> q = ''stats.views'')"
  by (auto simp: bumpViews_def set_stats_views_def isModified_markModified)

lemma oid_bumpViews [simp]: "oid (doc (bumpViews d)) = oid (doc d)"
  by (simp add: doc_bumpViews)

lemma isNew_bumpViews [simp]: "isNew (bumpViews d) = isNew d"
  by (simp add: bumpViews_def set_stats_views_def)

lemma getProduct_keeps:
  "list_all2 (\<lambda>q q'. oid q' = oid q \<and> (isActive q' \<longrightarrow> isActive q)) st (fst (getProduct env st s))"
proof (cases "\<exists>p st' d'. lookup env st s = Inr (Some p) \<and> isActive p \<and> incrementViews env st (load p) = Inr (st', d')")
  case True
  then obtain p st' d' where l: "lookup env st s = Inr (Some p)" and ac: "isActive p"
    and i: "save env st (bumpViews (load p)) = Inr (st', d')"
    by (auto simp: incrementViews_def)
  have "list_all2 (\<lambda>q q'. oid q' = oid q \<and> (isActive q' \<longrightarrow> isActive q)) st st'"
    by (rule save_keeps[OF _ i]) (simp_all add: isModified_bumpViews)
  with l ac i show ?thesis by (simp add: getProduct_cases incrementViews_def)
next
  case False
  then have "fst (getProduct env st s) = st"
    by (auto simp: getProduct_cases split: sum.splits option.splits)
  then show ?thesis by (simp add: list_all2_refl)
qed

lemma updateProduct_keeps:
  assumes "b_isActive b \<noteq> Some True"
  shows "list_all2 (\<lambda>q q'. oid q' = oid q \<and> (isActive q' \<longrightarrow> isActive q)) st
           (fst (updateProduct env st req_user i b))"
proof -
  obtain st' resp where r: "updateProduct env st req_user i b = (st', resp)"
    by (cases "updateProduct env st req_user i b")
  from updateProduct_cases[OF r] show ?thesis
  proof
    assume "st' = st"
    with r show ?thesis by (simp add: list_all2_refl)
  next
    assume "\<exists>(u::user) p d'. admin req_user = Inr u \<and> validate_update b = [] \<and> findById env st i = Inr (Some p)
           \<and> save env st (set_updatedBy (uid u) (assign_body (sanitize b) (load p))) = Inr (st', d')
           \<and> resp = Success 200 (populate env (doc d'))"
    then obtain u :: user and p d' where
      s: "save env st (set_updatedBy (uid u) (assign_body (sanitize b) (load p))) = Inr (st', d')"
      by auto
    have "list_all2 (\<lambda>q q'. oid q' = oid q \<and> (isActive q' \<longrightarrow> isActive q)) st st'"
    proof (rule save_keeps[OF _ s])
      show "\<not> isNew (set_updatedBy (uid u) (assign_body (sanitize b) (load p)))" by simp
    next
      fix old
      assume "isModified (set_updatedBy (uid u) (assign_body (sanitize b) (load p))) ''isActive''"
        and "isActive (doc (set_updatedBy (uid u) (assign_body (sanitize b) (load p))))"
      with assms show "isActive old"
        by (cases "b_isActive b") (simp_all add: isModified_set_updatedBy isModified_assign_body doc_assign_body)
    qed
    with r show ?thesis by simp
  qed
qed

lemma softDelete_keeps:
  "list_all2 (\<lambda>q q'. oid q' = oid q \<and> (isActive q' \<longrightarrow> isActive q)) st
     (fst (softDeleteProduct env st req_user i))"
proof (cases "\<exists>(u::user) p st' d'. admin req_user = Inr u \<and> findById env st i = Inr (Some p)
                \<and> save env st (set_updatedBy (uid u) (set_isActive False (load p))) = Inr (st', d')")
  case True
  then obtain u :: user and p st' d' where a: "admin req_user = Inr u"
    and f: "findById env st i = Inr (Some p)"
    and s: "save env st (set_updatedBy (uid u) (set_isActive False (load p))) = Inr (st', d')"
    by auto
  have "list_all2 (\<lambda>q q'. oid q' = oid q \<and> (isActive q' \<longrightarrow> isActive q)) st st'"
    by (rule save_keeps[OF _ s]) simp_all
  with a f s show ?thesis by (simp add: softDeleteProduct_def)
next
  case False
  then have "fst (softDeleteProduct env st req_user i) = st"
    by (auto simp: softDeleteProduct_def split: sum.splits option.splits prod.splits)
  then show ?thesis by (simp add: list_all2_refl)
qed

lemma insertOne_appends:
  "insertOne st p = Inr st' \<Longrightarrow> st' = st @ [p] \<and> (\<forall>q\<in>set st. oid q \<noteq> oid p)"
  by (auto simp: insertOne_def list_ex_iff split: if_splits)

lemma save_new:
  "isNew d \<Longrightarrow> save env st d = Inr (st', d') \<Longrightarrow>
     \<exists>p. st' = st @ [p] \<and> (\<forall>q\<in>set st. oid q \<noteq> oid p)"
  by (auto simp: save_def Let_def dest: insertOne_appends split: if_splits sum.splits)

lemma isNew_new_document [simp]: "isNew (new_document i now)"
  by (simp add: new_document_def)

lemma createProduct_appends:
  "fst (createProduct env st req_user b files i now) = st
   \<or> (\<exists>p. fst (createProduct env st req_user b files i now) = st @ [p] \<and> (\<forall>q\<in>set st. oid q \<noteq> oid p))"
proof (cases "\<exists>(u::user) st' d'. admin req_user = Inr u \<and> validate_create b = []
          \<and> save env st (assign_body (productData u (sanitize b) files) (new_document i now)) = Inr (st', d')")
  case True
  then obtain u :: user and st' d' where a: "admin req_user = Inr u" and v: "validate_create b = []"
    and s: "save env st (assign_body (productData u (sanitize b) files) (new_document i now)) = Inr (st', d')"
    by auto
  from save_new[OF _ s] obtain p where "st' = st @ [p] \<and> (\<forall>q\<in>set st. oid q \<noteq> oid p)"
    by auto
  with a v s show ?thesis by (simp add: createProduct_def)
next
  case False
  then have "fst (createProduct env st req_user b files i now) = st"
    by (auto simp: createProduct_def Let_def split: sum.splits prod.splits)
  then show ?thesis by simp
qed

lemma list_all2_left: "list_all2 R xs ys \<Longrightarrow> x \<in> set xs \<Longrightarrow> \<exists>y\<in>set ys. R x y"
  by (induction xs ys rule: list_all2_induct) auto

lemma list_all2_right: "list_all2 R xs ys \<Longrightarrow> y \<in> set ys \<Longrightarrow> \<exists>x\<in>set xs. R x y"
  by (induction xs ys rule: list_all2_induct) auto

lemma inactive_kept:
  assumes k: "list_all2 (\<lambda>q q'. oid q' = oid q \<and> (isActive q' \<longrightarrow> isActive q)) st st'"
    and e: "\<exists>p\<in>set st. oid p = i" and a: "\<forall>p\<in>set st. oid p = i \<longrightarrow> \<not> isActive p"
  shows "(\<exists>p\<in>set st'. oid p = i) \<and> (\<forall>p\<in>set st'. oid p = i \<longrightarrow> \<not> isActive p)"
proof
  from e obtain p where "p \<in> set st" "oid p = i" by blast
  with list_all2_left[OF k, of p] show "\<exists>p\<in>set st'. oid p = i" by auto
next
  show "\<forall>p\<in>set st'. oid p = i \<longrightarrow> \<not> isActive p"
  proof (intro ballI impI)
    fix p' assume "p' \<in> set st'" "oid p' = i"
    with list_all2_right[OF k, of p'] obtain q where "q \<in> set st" "oid p' = oid q"
      "isActive p' \<longrightarrow> isActive q" by auto
    with a \<open>oid p' = i\<close> show "\<not> isActive p'" by auto
  qed
qed

lemma step_keeps_inactive:
  assumes "\<not> sets_active c" and "\<exists>p\<in>set st. oid p = i" and "\<forall>p\<in>set st. oid p = i \<longrightarrow> \<not> isActive p"
  shows "(\<exists>p\<in>set (step env st c). oid p = i) \<and> (\<forall>p\<in>set (step env st c). oid p = i \<longrightarrow> \<not> isActive p)"
proof (cases c)
  case (ListProducts q)
  with assms show ?thesis by (simp add: step_def)
next
  case (GetProduct s)
  with inactive_kept[OF getProduct_keeps assms(2,3)] show ?thesis by (simp add: step_def)
next
  case (CreateProduct req_user b files j now)
  from createProduct_appends[of env st req_user b files j now]
  show ?thesis
  proof
    assume "fst (createProduct env st req_user b files j now) = st"
    with CreateProduct assms(2,3) show ?thesis by (simp add: step_def)
  next
    assume "\<exists>p. fst (createProduct env st req_user b files j now) = st @ [p]
              \<and> (\<forall>q\<in>set st. oid q \<noteq> oid p)"
    then obtain p where st': "fst (createProduct env st req_user b files j now) = st @ [p]"
      and fresh: "\<forall>q\<in>set st. oid q \<noteq> oid p" by blast
    from assms(2) fresh have "oid p \<noteq> i" by blast
    with CreateProduct st' assms(2,3) show ?thesis by (auto simp: step_def)
  qed
next
  case (UpdateProduct req_user j b)
  with assms(1) have "b_isActive b \<noteq> Some True" by (simp add: sets_active_def)
  from inactive_kept[OF updateProduct_keeps[OF this] assms(2,3)] UpdateProduct
  show ?thesis by (simp add: step_def)
next
  case (SoftDeleteProduct req_user j)
  with inactive_kept[OF softDelete_keeps assms(2,3)] show ?thesis by (simp add: step_def)
qed

subsection \<open>Helper facts: evaluating the examples\<close>

lemmas setter_defs = set_name_def set_slug_def set_description_def set_price_def
  set_category_def set_images_def set_isActive_def set_isFeatured_def set_stats_def
  set_stats_views_def set_stats_downloads_def set_stats_sales_def
  set_createdBy_def set_updatedBy_def markModified_def isModified_def load_def

lemmas save_defs = save_def validate_def Let_def categories_def slug_hook_def images_hook_def
  updateOne_def insertOne_def write_modified_def write_path_def byId_def

lemmas body_defs = validate_update_def validate_create_def check_optional_def no_fields_def
  sanitize_def assign_body_def assign_def length_between_def or_empty_def trim_def is_space_def
  productData_def new_document_def

lemma findById_alpha:
  "findById env st ''64b7f3a2c19e4d0012ab34cd'' = Inr (byId st ''64b7f3a2c19e4d0012ab34cd'')"
  using hex_alpha_id by (simp add: findById_def)

lemma hex_beta_id:
  "isObjectIdString ''64b7f3a2c19e4d0012ab34ce''
   \<and> map lower_hex ''64b7f3a2c19e4d0012ab34ce'' = ''64b7f3a2c19e4d0012ab34ce''"
  by (simp add: isObjectIdString_def is_hex_def lower_hex_def)

lemma findById_beta:
  "findById env st ''64b7f3a2c19e4d0012ab34ce'' = Inr (byId st ''64b7f3a2c19e4d0012ab34ce'')"
  using hex_beta_id by (simp add: findById_def)

lemma admin_example [simp]: "admin (Some example_admin) = Inr example_admin"
  by (simp add: admin_def)

subsection \<open>The counters\<close>

lemma write_bumpViews:
  "write_modified (images_hook (slug_hook env (bumpViews (load p)))) old
     = old\<lparr>stats := (stats old)\<lparr>views := views (stats p) + 1\<rparr>\<rparr>"
  by (simp add: bumpViews_def setter_defs slug_hook_def images_hook_def write_modified_def write_path_def)

lemma write_bumpDownloads:
  "write_modified (images_hook (slug_hook env (bumpDownloads (load p)))) old
     = old\<lparr>stats := (stats old)\<lparr>downloads := downloads (stats p) + 1\<rparr>\<rparr>"
  by (simp add: bumpDownloads_def setter_defs slug_hook_def images_hook_def write_modified_def write_path_def)

lemma write_bumpSales:
  "write_modified (images_hook (slug_hook env (bumpSales (load p)))) old
     = old\<lparr>stats := (stats old)\<lparr>sales := sales (stats p) + 1\<rparr>\<rparr>"
  by (simp add: bumpSales_def setter_defs slug_hook_def images_hook_def write_modified_def write_path_def)

lemma bump_loaded [simp]:
  "\<not> isNew (bumpViews (load p))" "oid (doc (bumpViews (load p))) = oid p"
  "\<not> isNew (bumpDownloads (load p))" "oid (doc (bumpDownloads (load p))) = oid p"
  "\<not> isNew (bumpSales (load p))" "oid (doc (bumpSales (load p))) = oid p"
  by (simp_all add: bumpViews_def bumpDownloads_def bumpSales_def setter_defs)

lemma save_bump:
  assumes n: "\<not> isNew d" and s: "save env st d = Inr (st', d')"
  shows "\<exists>old. byId st (oid (doc d)) = Some old
           \<and> byId st' (oid (doc d)) = Some (write_modified (images_hook (slug_hook env d)) old)"
proof -
  from save_loaded[OF n s] obtain old where old: "byId st (oid (doc d)) = Some old"
    and st': "st' = replace_first (oid (doc d)) (write_modified (images_hook (slug_hook env d)) old) st"
    by blast
  from byId_Some[OF old] have "oid old = oid (doc d)" by simp
  with old have "byId (replace_first (oid (doc d)) (write_modified (images_hook (slug_hook env d)) old) st)
          (oid (doc d)) = Some (write_modified (images_hook (slug_hook env d)) old)"
    by (intro byId_replace_first) simp_all
  with old st' show ?thesis by simp
qed

lemma increment_stale:
  "incrementViews example_env
     [alpha\<lparr>stats := \<lparr>views = 9, downloads = 3, sales = 2, rating = \<lparr>average = 4, count = 1\<rparr>\<rparr>\<rparr>]
     (load alpha)
   = Inr ([alpha\<lparr>stats := \<lparr>views = 6, downloads = 3, sales = 2,
                            rating = \<lparr>average = 4, count = 1\<rparr>\<rparr>\<rparr>],
          \<lparr>isNew = False, modifiedPaths = [],
           doc = alpha\<lparr>stats := \<lparr>views = 6, downloads = 3, sales = 2,
                                 rating = \<lparr>average = 4, count = 1\<rparr>\<rparr>\<rparr>\<rparr>)"
  by (simp add: incrementViews_def bumpViews_def save_defs setter_defs)

text \<open>
  A request whose lookup is followed at once by its save is the handler of the
  operations in sequence.
\<close>

lemma found_then_saved:
  assumes "inMemory w r = None"
  shows "stored (occur env (occur env w (Found r s)) (Saved r)) = fst (getProduct env (stored w) s)"
proof (cases "lookup env (stored w) s")
  case (Inl e)
  with assms show ?thesis by (simp add: occur_def getProduct_cases)
next
  case (Inr found)
  show ?thesis
  proof (cases found)
    case None
    with Inr assms show ?thesis by (simp add: occur_def getProduct_cases)
  next
    case (Some p)
    with Inr assms show ?thesis
      by (cases "save env (stored w) (bumpViews (load p))")
         (auto simp: occur_def getProduct_cases incrementViews_def)
  qed
qed

lemma increments_store_plus_one:
  "(incrementViews env st (load p) = Inr (st', d') \<longrightarrow>
      (\<exists>old. byId st (oid p) = Some old
         \<and> byId st' (oid p) = Some (old\<lparr>stats := (stats old)\<lparr>views := views (stats p) + 1\<rparr>\<rparr>)))
   \<and> (incrementDownloads env st (load p) = Inr (st', d') \<longrightarrow>
      (\<exists>old. byId st (oid p) = Some old
         \<and> byId st' (oid p) = Some (old\<lparr>stats := (stats old)\<lparr>downloads := downloads (stats p) + 1\<rparr>\<rparr>)))
   \<and> (incrementSales env st (load p) = Inr (st', d') \<longrightarrow>
      (\<exists>old. byId st (oid p) = Some old
         \<and> byId st' (oid p) = Some (old\<lparr>stats := (stats old)\<lparr>sales := sales (stats p) + 1\<rparr>\<rparr>)))"
proof (intro conjI impI)
  assume "incrementViews env st (load p) = Inr (st', d')"
  then have "save env st (bumpViews (load p)) = Inr (st', d')" by (simp add: incrementViews_def)
  from save_bump[OF _ this] show "\<exists>old. byId st (oid p) = Some old
         \<and> byId st' (oid p) = Some (old\<lparr>stats := (stats old)\<lparr>views := views (stats p) + 1\<rparr>\<rparr>)"
    by (simp add: write_bumpViews)
next
  assume "incrementDownloads env st (load p) = Inr (st', d')"
  then have "save env st (bumpDownloads (load p)) = Inr (st', d')" by (simp add: incrementDownloads_def)
  from save_bump[OF _ this] show "\<exists>old. byId st (oid p) = Some old
         \<and> byId st' (oid p) = Some (old\<lparr>stats := (stats old)\<lparr>downloads := downloads (stats p) + 1\<rparr>\<rparr>)"
    by (simp add: write_bumpDownloads)
next
  assume "incrementSales env st (load p) = Inr (st', d')"
  then have "save env st (bumpSales (load p)) = Inr (st', d')" by (simp add: incrementSales_def)
  from save_bump[OF _ this] show "\<exists>old. byId st (oid p) = Some old
         \<and> byId st' (oid p) = Some (old\<lparr>stats := (stats old)\<lparr>sales := sales (stats p) + 1\<rparr>\<rparr>)"
    by (simp add: write_bumpSales)
qed

lemma replace_first_distinct:
  "map oid (replace_first i new st) = map oid st" if "oid new = i"
  using that by (induction st) auto

lemma find_replace_first:
  assumes "distinct (map oid st)" and "find P st = Some p" and "P new" and "oid new = oid p"
  shows "find P (replace_first (oid p) new st) = Some new"
  using assms
proof (induction st)
  case Nil
  then show ?case by simp
next
  case (Cons q st)
  show ?case
  proof (cases "P q")
    case True
    with Cons.prems show ?thesis by simp
  next
    case False
    with Cons.prems have f: "find P st = Some p" by simp
    then have "p \<in> set st" by (auto simp: find_Some_iff)
    with Cons.prems(1) have "oid q \<noteq> oid p" by auto
    with False Cons f show ?thesis by simp
  qed
qed

lemma lookup_replace_first:
  assumes d: "distinct (map oid st)" and l: "lookup env st s = Inr (Some p)"
    and n: "oid new = oid p" "slug new = slug p"
  shows "lookup env (replace_first (oid p) new st) s = Inr (Some new)"
proof (cases "isObjectIdString s")
  case True
  with l have "find (\<lambda>q. oid q = map lower_hex s) st = Some p"
    by (simp add: lookup_def findById_def byId_def)
  moreover from this have "oid p = map lower_hex s" by (auto simp: find_Some_iff)
  ultimately have "find (\<lambda>q. oid q = map lower_hex s) (replace_first (oid p) new st) = Some new"
    using d n by (intro find_replace_first) simp_all
  with True show ?thesis by (simp add: lookup_def findById_def byId_def)
next
  case False
  with l have "find (\<lambda>q. slug q = s) st = Some p"
    by (simp add: lookup_def findOne_slug_def)
  moreover from this have "slug p = s" by (auto simp: find_Some_iff)
  ultimately have "find (\<lambda>q. slug q = s) (replace_first (oid p) new st) = Some new"
    using d n by (intro find_replace_first) simp_all
  with False show ?thesis by (simp add: lookup_def findOne_slug_def)
qed

lemma byId_found:
  assumes d: "distinct (map oid st)" and l: "lookup env st s = Inr (Some p)"
  shows "byId st (oid p) = Some p"
  using found_in_store[OF l] d by (simp add: byId_def find_distinct)

lemma one_request:
  assumes d: "distinct (map oid (stored w))" and l: "lookup env (stored w) s = Inr (Some p)"
    and m: "inMemory w = (\<lambda>r. None)"
  shows "\<exists>p'. lookup env (stored (occur env (occur env w (Found r s)) (Saved r))) s = Inr (Some p')
           \<and> views (stats p') - int (saves (occur env (occur env w (Found r s)) (Saved r)))
               = views (stats p) - int (saves w)
           \<and> distinct (map oid (stored (occur env (occur env w (Found r s)) (Saved r))))
           \<and> inMemory (occur env (occur env w (Found r s)) (Saved r)) = (\<lambda>r. None)"
proof (cases "isActive p")
  case False
  with l m d show ?thesis by (simp add: occur_def)
next
  case True
  show ?thesis
  proof (cases "save env (stored w) (bumpViews (load p))")
    case (Inl e)
    with True l m d show ?thesis by (simp add: occur_def)
  next
    case (Inr res)
    obtain st' d' where res: "res = (st', d')" by (cases res)
    from save_loaded[OF _ Inr[unfolded res]] byId_found[OF d l]
    have st': "st' = replace_first (oid p) (p\<lparr>stats := (stats p)\<lparr>views := views (stats p) + 1\<rparr>\<rparr>) (stored w)"
      by (simp add: write_bumpViews)
    let ?new = "p\<lparr>stats := (stats p)\<lparr>views := views (stats p) + 1\<rparr>\<rparr>"
    have "lookup env st' s = Inr (Some ?new)"
      unfolding st' by (rule lookup_replace_first[OF d l]) simp_all
    moreover have "distinct (map oid st')"
      unfolding st' using d by (simp add: replace_first_distinct)
    ultimately show ?thesis
      using True l m Inr res by (simp add: occur_def)
  qed
qed

lemma sequential_add_up:
  assumes "distinct (map oid (stored w))" and "lookup env (stored w) s = Inr (Some p)"
    and "inMemory w = (\<lambda>r. None)"
  shows "\<exists>p'. lookup env (stored (interleaving env w (concat (map (\<lambda>r. [Found r s, Saved r]) rs)))) s
                 = Inr (Some p')
           \<and> views (stats p') - int (saves (interleaving env w (concat (map (\<lambda>r. [Found r s, Saved r]) rs))))
               = views (stats p) - int (saves w)"
  using assms
proof (induction rs arbitrary: w p)
  case Nil
  then show ?case by (simp add: interleaving_def)
next
  case (Cons r rs)
  let ?w = "occur env (occur env w (Found r s)) (Saved r)"
  from one_request[OF Cons.prems, of r] obtain p' where
    1: "lookup env (stored ?w) s = Inr (Some p')"
    and 2: "views (stats p') - int (saves ?w) = views (stats p) - int (saves w)"
    and 3: "distinct (map oid (stored ?w))" and 4: "inMemory ?w = (\<lambda>r. None)"
    by blast
  from Cons.IH[OF 3 1 4] 2 show ?case
    by (simp add: interleaving_def)
qed

lemma increment_downloads_alpha:
  "incrementDownloads example_env [alpha] (load alpha)
   = Inr ([alpha\<lparr>stats := \<lparr>views = 5, downloads = 4, sales = 2,
                            rating = \<lparr>average = 4, count = 1\<rparr>\<rparr>\<rparr>],
          \<lparr>isNew = False, modifiedPaths = [],
           doc = alpha\<lparr>stats := \<lparr>views = 5, downloads = 4, sales = 2,
                                 rating = \<lparr>average = 4, count = 1\<rparr>\<rparr>\<rparr>\<rparr>)"
  by (simp add: incrementDownloads_def bumpDownloads_def save_defs setter_defs)

lemma increment_sales_alpha:
  "incrementSales example_env [alpha] (load alpha)
   = Inr ([alpha\<lparr>stats := \<lparr>views = 5, downloads = 3, sales = 3,
                            rating = \<lparr>average = 4, count = 1\<rparr>\<rparr>\<rparr>],
          \<lparr>isNew = False, modifiedPaths = [],
           doc = alpha\<lparr>stats := \<lparr>views = 5, downloads = 3, sales = 3,
                                 rating = \<lparr>average = 4, count = 1\<rparr>\<rparr>\<rparr>\<rparr>)"
  by (simp add: incrementSales_def bumpSales_def save_defs setter_defs)

lemma two_requests_in_turn:
  "stored (interleaving example_env (idle [beta])
             (concat (map (\<lambda>r. [Found r ''beta'', Saved r]) [1, 2])))
     = [beta\<lparr>stats := \<lparr>views = 2, downloads = 0, sales = 0,
                        rating = \<lparr>average = 0, count = 0\<rparr>\<rparr>\<rparr>]
   \<and> saves (interleaving example_env (idle [beta])
             (concat (map (\<lambda>r. [Found r ''beta'', Saved r]) [1, 2]))) = 2"
  by (simp add: interleaving_def idle_def occur_def lookup_def isObjectIdString_def
      findOne_slug_def bumpViews_def save_defs setter_defs)

text \<open>
  C1, as the code has it. Each of \<open>incrementViews\<close>, \<open>incrementDownloads\<close> and
  \<open>incrementSales\<close> raises the counter of the document in memory and saves that value:
  after a successful increment the stored counter is the value the document was loaded
  with plus one, whatever the store held when the save arrived. The operation reads the
  counter, adds and writes; it is no delta applied at the store. When the requests for a
  product come in turn, each one's save before the next one's lookup, the views rise by
  the number of the saves that succeeded.
\<close>

theorem increments_are_read_modify_write:
  "(incrementViews env st (load p) = Inr (st', d') \<longrightarrow>
      (\<exists>old. byId st (oid p) = Some old
         \<and> byId st' (oid p) = Some (old\<lparr>stats := (stats old)\<lparr>views := views (stats p) + 1\<rparr>\<rparr>)))
   \<and> (incrementDownloads env st (load p) = Inr (st', d') \<longrightarrow>
      (\<exists>old. byId st (oid p) = Some old
         \<and> byId st' (oid p)
             = Some (old\<lparr>stats := (stats old)\<lparr>downloads := downloads (stats p) + 1\<rparr>\<rparr>)))
   \<and> (incrementSales env st (load p) = Inr (st', d') \<longrightarrow>
      (\<exists>old. byId st (oid p) = Some old
         \<and> byId st' (oid p) = Some (old\<lparr>stats := (stats old)\<lparr>sales := sales (stats p) + 1\<rparr>\<rparr>)))
   \<and> (distinct (map oid st) \<and> lookup env st s = Inr (Some p) \<longrightarrow>
      (\<exists>p'. lookup env
               (stored (interleaving env (idle st) (concat (map (\<lambda>r. [Found r s, Saved r]) rs)))) s
               = Inr (Some p')
         \<and> views (stats p')
             = views (stats p)
               + int (saves (interleaving env (idle st)
                       (concat (map (\<lambda>r. [Found r s, Saved r]) rs))))))"
proof -
  have "distinct (map oid st) \<and> lookup env st s = Inr (Some p) \<longrightarrow>
      (\<exists>p'. lookup env
               (stored (interleaving env (idle st) (concat (map (\<lambda>r. [Found r s, Saved r]) rs)))) s
               = Inr (Some p')
         \<and> views (stats p')
             = views (stats p)
               + int (saves (interleaving env (idle st)
                       (concat (map (\<lambda>r. [Found r s, Saved r]) rs)))))"
  proof
    assume a: "distinct (map oid st) \<and> lookup env st s = Inr (Some p)"
    from sequential_add_up[of "idle st" env s p rs] a
    show "\<exists>p'. lookup env
               (stored (interleaving env (idle st) (concat (map (\<lambda>r. [Found r s, Saved r]) rs)))) s
               = Inr (Some p')
         \<and> views (stats p')
             = views (stats p)
               + int (saves (interleaving env (idle st)
                       (concat (map (\<lambda>r. [Found r s, Saved r]) rs))))"
      by (auto simp: idle_def)
  qed
  with increments_store_plus_one[of env st p st' d'] show ?thesis by blast
qed

theorem increments_are_read_modify_write_witness:
  "incrementViews example_env
     [alpha\<lparr>stats := \<lparr>views = 9, downloads = 3, sales = 2, rating = \<lparr>average = 4, count = 1\<rparr>\<rparr>\<rparr>]
     (load alpha)
   = Inr ([alpha\<lparr>stats := \<lparr>views = 6, downloads = 3, sales = 2,
                            rating = \<lparr>average = 4, count = 1\<rparr>\<rparr>\<rparr>],
          \<lparr>isNew = False, modifiedPaths = [],
           doc = alpha\<lparr>stats := \<lparr>views = 6, downloads = 3, sales = 2,
                                 rating = \<lparr>average = 4, count = 1\<rparr>\<rparr>\<rparr>\<rparr>)
   \<and> views (stats alpha) = 5
   \<and> byId [alpha\<lparr>stats := \<lparr>views = 6, downloads = 3, sales = 2,
                            rating = \<lparr>average = 4, count = 1\<rparr>\<rparr>\<rparr>] (oid alpha)
       = Some (alpha\<lparr>stats := \<lparr>views = 6, downloads = 3, sales = 2,
                               rating = \<lparr>average = 4, count = 1\<rparr>\<rparr>\<rparr>)
   \<and> byId [alpha\<lparr>stats := \<lparr>views = 5, downloads = 4, sales = 2,
                            rating = \<lparr>average = 4, count = 1\<rparr>\<rparr>\<rparr>] (oid alpha)
       = Some (alpha\<lparr>stats := \<lparr>views = 5, downloads = 4, sales = 2,
                               rating = \<lparr>average = 4, count = 1\<rparr>\<rparr>\<rparr>)
   \<and> byId [alpha\<lparr>stats := \<lparr>views = 5, downloads = 3, sales = 3,
                            rating = \<lparr>average = 4, count = 1\<rparr>\<rparr>\<rparr>] (oid alpha)
       = Some (alpha\<lparr>stats := \<lparr>views = 5, downloads = 3, sales = 3,
                               rating = \<lparr>average = 4, count = 1\<rparr>\<rparr>\<rparr>)
   \<and> distinct (map oid [beta]) \<and> lookup example_env [beta] ''beta'' = Inr (Some beta)
   \<and> views (stats beta) = 0
   \<and> stored (interleaving example_env (idle [beta])
               (concat (map (\<lambda>r. [Found r ''beta'', Saved r]) [1, 2])))
       = [beta\<lparr>stats := \<lparr>views = 2, downloads = 0, sales = 0,
                          rating = \<lparr>average = 0, count = 0\<rparr>\<rparr>\<rparr>]
   \<and> saves (interleaving example_env (idle [beta])
              (concat (map (\<lambda>r. [Found r ''beta'', Saved r]) [1, 2]))) = 2"
  using increments_are_read_modify_write
          [of example_env
              "[alpha\<lparr>stats := \<lparr>views = 9, downloads = 3, sales = 2,
                                  rating = \<lparr>average = 4, count = 1\<rparr>\<rparr>\<rparr>]"
              alpha
              "[alpha\<lparr>stats := \<lparr>views = 6, downloads = 3, sales = 2,
                                  rating = \<lparr>average = 4, count = 1\<rparr>\<rparr>\<rparr>]"
              "\<lparr>isNew = False, modifiedPaths = [],
                doc = alpha\<lparr>stats := \<lparr>views = 6, downloads = 3, sales = 2,
                                      rating = \<lparr>average = 4, count = 1\<rparr>\<rparr>\<rparr>\<rparr>"]
        increments_are_read_modify_write
          [of example_env "[alpha]" alpha
              "[alpha\<lparr>stats := \<lparr>views = 5, downloads = 4, sales = 2,
                                  rating = \<lparr>average = 4, count = 1\<rparr>\<rparr>\<rparr>]"
              "\<lparr>isNew = False, modifiedPaths = [],
                doc = alpha\<lparr>stats := \<lparr>views = 5, downloads = 4, sales = 2,
                                      rating = \<lparr>average = 4, count = 1\<rparr>\<rparr>\<rparr>\<rparr>"]
        increments_are_read_modify_write
          [of example_env "[alpha]" alpha
              "[alpha\<lparr>stats := \<lparr>views = 5, downloads = 3, sales = 3,
                                  rating = \<lparr>average = 4, count = 1\<rparr>\<rparr>\<rparr>]"
              "\<lparr>isNew = False, modifiedPaths = [],
                doc = alpha\<lparr>stats := \<lparr>views = 5, downloads = 3, sales = 3,
                                      rating = \<lparr>average = 4, count = 1\<rparr>\<rparr>\<rparr>\<rparr>"]
        increments_are_read_modify_write
          [of example_env "[beta]" beta _ _ "''beta''" "[1, 2]"]
        increment_stale increment_downloads_alpha increment_sales_alpha two_requests_in_turn
  by (simp add: byId_def lookup_def isObjectIdString_def findOne_slug_def)

text \<open>
  Two requests for the same product whose lookups both come before the saves: both
  saves succeed and the views, 0 before, are 1 afterwards.
\<close>

theorem lost_update_counterexample:
  "views (stats beta) = 0
   \<and> stored (interleaving example_env (idle [beta])
             [Found 1 ''beta'', Found 2 ''beta'', Saved 1, Saved 2])
     = [beta\<lparr>stats := \<lparr>views = 1, downloads = 0, sales = 0,
                        rating = \<lparr>average = 0, count = 0\<rparr>\<rparr>\<rparr>]
   \<and> saves (interleaving example_env (idle [beta])
             [Found 1 ''beta'', Found 2 ''beta'', Saved 1, Saved 2]) = 2"
  by (simp add: interleaving_def idle_def occur_def lookup_def isObjectIdString_def
      findOne_slug_def bumpViews_def save_defs setter_defs)

subsection \<open>The fields an update writes\<close>

lemma update_price_only:
  "updateProduct example_env [alpha] (Some example_admin) ''64b7f3a2c19e4d0012ab34cd''
     (no_fields\<lparr>b_price := Some 25\<rparr>)
   = ([alpha\<lparr>price := 25, updatedBy := Some ''64b7f3a2c19e4d0012ab0001''\<rparr>],
      Success 200 (populate example_env (alpha\<lparr>price := 25, updatedBy := Some ''64b7f3a2c19e4d0012ab0001''\<rparr>)))"
  by (simp add: updateProduct_def findById_alpha save_defs body_defs setter_defs)

text \<open>
  C6, as the code has it. The handler of PUT assigns every key of the body to the
  product. An update whose body has none of the keys \<open>name\<close>, \<open>slug\<close>, \<open>stats\<close> and
  \<open>createdBy\<close> leaves the slug, the stats and the creator of every stored product as
  they were; after a successful update the stored stats and creator of the product are
  those of the body where the body has the key, and the old ones where it has not, and
  so is the stored slug unless the update changes the name (then it is the slug of the
  new name).
\<close>

theorem update_writes_the_body_keys:
  "(b_name b = None \<and> b_slug b = None \<and> b_stats b = None \<and> b_createdBy b = None \<longrightarrow>
      list_all2 (\<lambda>q q'. oid q' = oid q \<and> slug q' = slug q \<and> stats q' = stats q
                          \<and> createdBy q' = createdBy q)
        st (fst (updateProduct env st req_user i b)))
   \<and> (updateProduct env st req_user i b = (st', Success n r) \<longrightarrow>
        (\<exists>p p'. findById env st i = Inr (Some p) \<and> byId st' (oid p) = Some p' \<and> oid r = oid p
           \<and> stats p' = or_keep (b_stats b) (stats p)
           \<and> createdBy p' = or_keep (b_createdBy b) (createdBy p)
           \<and> slug p' = (if name r \<noteq> name p then slugify env (name r)
                         else or_keep (b_slug b) (slug p))))"
  using update_frame[of b st env req_user i] update_copies[of env st req_user i b st' n r]
  by blast

theorem update_writes_the_body_keys_witness:
  "b_name (no_fields\<lparr>b_price := Some 25\<rparr>) = None
   \<and> b_slug (no_fields\<lparr>b_price := Some 25\<rparr>) = None
   \<and> b_stats (no_fields\<lparr>b_price := Some 25\<rparr>) = None
   \<and> b_createdBy (no_fields\<lparr>b_price := Some 25\<rparr>) = None
   \<and> updateProduct example_env [alpha] (Some example_admin) ''64b7f3a2c19e4d0012ab34cd''
       (no_fields\<lparr>b_price := Some 25\<rparr>)
     = ([alpha\<lparr>price := 25, updatedBy := Some ''64b7f3a2c19e4d0012ab0001''\<rparr>],
        Success 200 (populate example_env (alpha\<lparr>price := 25, updatedBy := Some ''64b7f3a2c19e4d0012ab0001''\<rparr>)))
   \<and> list_all2 (\<lambda>q q'. oid q' = oid q \<and> slug q' = slug q \<and> stats q' = stats q
                          \<and> createdBy q' = createdBy q)
        [alpha] [alpha\<lparr>price := 25, updatedBy := Some ''64b7f3a2c19e4d0012ab0001''\<rparr>]"
  using update_writes_the_body_keys
          [of "no_fields\<lparr>b_price := Some 25\<rparr>" "[alpha]" example_env "Some example_admin"
              "''64b7f3a2c19e4d0012ab34cd''"]
        update_price_only
  by (simp add: no_fields_def)

text \<open>
  An update whose body has \<open>slug\<close>, \<open>stats\<close> and \<open>createdBy\<close>: the views of the stored
  product go from 5 to 0, its slug and its creator are the caller's.
\<close>

theorem update_sets_counters_counterexample:
  "views (stats alpha) = 5 \<and> slug alpha = ''alpha''
   \<and> createdBy alpha = ''64b7f3a2c19e4d0012ab0001''
   \<and> updateProduct example_env [alpha] (Some example_admin) ''64b7f3a2c19e4d0012ab34cd''
       (no_fields\<lparr>b_stats := Some \<lparr>views = 0, downloads = 0, sales = 0,
                                      rating = \<lparr>average = 0, count = 0\<rparr>\<rparr>,
                   b_createdBy := Some ''64b7f3a2c19e4d0012ab0002'',
                   b_slug := Some ''omega''\<rparr>)
     = ([alpha\<lparr>slug := ''omega'',
               stats := \<lparr>views = 0, downloads = 0, sales = 0,
                         rating = \<lparr>average = 0, count = 0\<rparr>\<rparr>,
               createdBy := ''64b7f3a2c19e4d0012ab0002'',
               updatedBy := Some ''64b7f3a2c19e4d0012ab0001''\<rparr>],
        Success 200
          (populate example_env
             (alpha\<lparr>slug := ''omega'',
                    stats := \<lparr>views = 0, downloads = 0, sales = 0,
                              rating = \<lparr>average = 0, count = 0\<rparr>\<rparr>,
                    createdBy := ''64b7f3a2c19e4d0012ab0002'',
                    updatedBy := Some ''64b7f3a2c19e4d0012ab0001''\<rparr>)))"
  using update_stats_down by simp

subsection \<open>The active flag over a sequence of calls\<close>

lemma softDelete_alpha:
  "softDeleteProduct example_env [alpha] (Some example_admin) ''64b7f3a2c19e4d0012ab34cd''
   = ([alpha\<lparr>isActive := False, updatedBy := Some ''64b7f3a2c19e4d0012ab0001''\<rparr>], Success 200 ())"
  by (simp add: softDeleteProduct_def findById_alpha save_defs setter_defs)

lemma reactivate_alpha:
  "updateProduct example_env
     [alpha\<lparr>isActive := False, updatedBy := Some ''64b7f3a2c19e4d0012ab0001''\<rparr>]
     (Some example_admin) ''64b7f3a2c19e4d0012ab34cd'' (no_fields\<lparr>b_isActive := Some True\<rparr>)
   = ([alpha\<lparr>isActive := True, updatedBy := Some ''64b7f3a2c19e4d0012ab0001''\<rparr>],
      Success 200 (populate example_env (alpha\<lparr>isActive := True, updatedBy := Some ''64b7f3a2c19e4d0012ab0001''\<rparr>)))"
  by (simp add: updateProduct_def findById_alpha save_defs body_defs setter_defs)

lemma softDelete_inactive_alpha:
  "softDeleteProduct example_env [alpha\<lparr>isActive := False\<rparr>] (Some example_admin)
     ''64b7f3a2c19e4d0012ab34cd''
   = ([alpha\<lparr>isActive := False, updatedBy := Some ''64b7f3a2c19e4d0012ab0001''\<rparr>], Success 200 ())"
  by (simp add: softDeleteProduct_def findById_alpha save_defs setter_defs)

lemma reprice_inactive_alpha:
  "updateProduct example_env
     [alpha\<lparr>isActive := False, updatedBy := Some ''64b7f3a2c19e4d0012ab0001''\<rparr>]
     (Some example_admin) ''64b7f3a2c19e4d0012ab34cd'' (no_fields\<lparr>b_price := Some 25\<rparr>)
   = ([alpha\<lparr>price := 25, isActive := False, updatedBy := Some ''64b7f3a2c19e4d0012ab0001''\<rparr>],
      Success 200
        (populate example_env
           (alpha\<lparr>price := 25, isActive := False,
              updatedBy := Some ''64b7f3a2c19e4d0012ab0001''\<rparr>)))"
  by (simp add: updateProduct_def findById_alpha save_defs body_defs setter_defs)

lemma get_inactive_alpha:
  "getProduct example_env
     [alpha\<lparr>price := 25, isActive := False, updatedBy := Some ''64b7f3a2c19e4d0012ab0001''\<rparr>]
     ''alpha''
   = ([alpha\<lparr>price := 25, isActive := False, updatedBy := Some ''64b7f3a2c19e4d0012ab0001''\<rparr>],
      Failure 404 ''Product not found'' [])"
  by (simp add: getProduct_cases lookup_def not_hex_alpha findOne_slug_def)

text \<open>
  C7, as the code has it. Over any sequence of calls of the five operations in which no
  update carries \<open>isActive: true\<close> in its body, a product of the store that is inactive
  stays in the store and stays inactive. (An update that carries it is the
  counterexample below.)
\<close>

theorem inactive_stays_inactive:
  assumes "\<forall>c\<in>set cs. \<not> sets_active c" and "\<exists>p\<in>set st. oid p = i"
    and "\<forall>p\<in>set st. oid p = i \<longrightarrow> \<not> isActive p"
  shows "(\<exists>p\<in>set (run env st cs). oid p = i) \<and> (\<forall>p\<in>set (run env st cs). oid p = i \<longrightarrow> \<not> isActive p)"
  using assms
proof (induction cs arbitrary: st)
  case Nil
  then show ?case by (simp add: run_def)
next
  case (Cons c cs)
  from Cons.prems have c: "\<not> sets_active c" by simp
  have "run env st (c # cs) = run env (step env st c) cs" by (simp add: run_def)
  moreover from Cons.prems have "\<forall>c\<in>set cs. \<not> sets_active c" by simp
  ultimately show ?case
    using Cons.IH[of "step env st c"] step_keeps_inactive[OF c Cons.prems(2,3), of env]
    by simp
qed

theorem inactive_stays_inactive_witness:
  "\<not> sets_active (SoftDeleteProduct (Some example_admin) ''64b7f3a2c19e4d0012ab34cd'')
   \<and> \<not> sets_active (UpdateProduct (Some example_admin) ''64b7f3a2c19e4d0012ab34cd''
                       (no_fields\<lparr>b_price := Some 25\<rparr>))
   \<and> \<not> sets_active (GetProduct ''alpha'')
   \<and> oid (alpha\<lparr>isActive := False\<rparr>) = ''64b7f3a2c19e4d0012ab34cd''
   \<and> \<not> isActive (alpha\<lparr>isActive := False\<rparr>)
   \<and> run example_env [alpha\<lparr>isActive := False\<rparr>]
        [SoftDeleteProduct (Some example_admin) ''64b7f3a2c19e4d0012ab34cd'',
         UpdateProduct (Some example_admin) ''64b7f3a2c19e4d0012ab34cd''
           (no_fields\<lparr>b_price := Some 25\<rparr>),
         GetProduct ''alpha'']
     = [alpha\<lparr>price := 25, isActive := False, updatedBy := Some ''64b7f3a2c19e4d0012ab0001''\<rparr>]
   \<and> \<not> isActive (alpha\<lparr>price := 25, isActive := False,
                          updatedBy := Some ''64b7f3a2c19e4d0012ab0001''\<rparr>)"
  using inactive_stays_inactive
          [of "[SoftDeleteProduct (Some example_admin) ''64b7f3a2c19e4d0012ab34cd'',
                UpdateProduct (Some example_admin) ''64b7f3a2c19e4d0012ab34cd''
                  (no_fields\<lparr>b_price := Some 25\<rparr>),
                GetProduct ''alpha'']"
              "[alpha\<lparr>isActive := False\<rparr>]" "''64b7f3a2c19e4d0012ab34cd''" example_env]
        softDelete_inactive_alpha reprice_inactive_alpha get_inactive_alpha
  by (simp add: run_def step_def sets_active_def no_fields_def)

text \<open>
  A soft delete followed by an update with \<open>isActive: true\<close>: the product is inactive
  after the first call and active again after the second.
\<close>

theorem reactivation_counterexample:
  "run example_env [alpha]
     [SoftDeleteProduct (Some example_admin) ''64b7f3a2c19e4d0012ab34cd'']
     = [alpha\<lparr>isActive := False, updatedBy := Some ''64b7f3a2c19e4d0012ab0001''\<rparr>]
   \<and> run example_env [alpha]
     [SoftDeleteProduct (Some example_admin) ''64b7f3a2c19e4d0012ab34cd'',
      UpdateProduct (Some example_admin) ''64b7f3a2c19e4d0012ab34cd''
        (no_fields\<lparr>b_isActive := Some True\<rparr>)]
     = [alpha\<lparr>isActive := True, updatedBy := Some ''64b7f3a2c19e4d0012ab0001''\<rparr>]"
  by (simp add: run_def step_def softDelete_alpha reactivate_alpha)

subsection \<open>The primary image\<close>

text \<open>
  What the hook does to a list of images that is not empty: with no image marked the
  first one becomes the primary one; with the first one marked it is the only one marked
  afterwards; with several marked and the first one not, none is marked afterwards.
\<close>

lemma enumerate_map_tail:
  "map (\<lambda>(index, img). if index > 0 then f img else img) (enumerate 0 (x # xs)) = x # map f xs"
proof -
  have "map (\<lambda>(index, img). if index > 0 then f img else img) (enumerate n xs) = map f xs" if "n > 0" for n
    using that by (induction xs arbitrary: n) auto
  then show ?thesis by simp
qed

lemma hook_many_primaries:
  assumes "length (primaryImages (x # xs)) > 1"
  shows "ensure_one_primary (x # xs) = x # map (\<lambda>img. img\<lparr>isPrimary := False\<rparr>) xs"
  using assms by (simp add: ensure_one_primary_def enumerate_map_tail del: enumerate_simps)

lemma primaryImages_cleared: "primaryImages (map (\<lambda>img. img\<lparr>isPrimary := False\<rparr>) xs) = []"
  by (induction xs) (simp_all add: primaryImages_def)

lemma hook_loses_primary:
  assumes "length (primaryImages (x # xs)) > 1" and "\<not> isPrimary x"
  shows "primaryImages (ensure_one_primary (x # xs)) = []"
  using assms primaryImages_cleared[of xs]
  by (simp add: hook_many_primaries) (simp add: primaryImages_def)

lemma hook_keeps_first:
  assumes "isPrimary x"
  shows "primaryImages (ensure_one_primary (x # xs)) = [x]"
proof (cases "length (primaryImages (x # xs)) > 1")
  case True
  with assms primaryImages_cleared[of xs] show ?thesis
    by (simp add: hook_many_primaries) (simp add: primaryImages_def)
next
  case False
  with assms have "filter isPrimary xs = []" by (simp add: primaryImages_def)
  with assms False show ?thesis by (simp add: ensure_one_primary_def primaryImages_def)
qed

lemma hook_none_marked:
  assumes "primaryImages (x # xs) = []"
  shows "ensure_one_primary (x # xs) = x\<lparr>isPrimary := True\<rparr> # xs
       \<and> primaryImages (ensure_one_primary (x # xs)) = [x\<lparr>isPrimary := True\<rparr>]"
  using assms by (simp add: ensure_one_primary_def primaryImages_def split: if_splits)

lemma create_with_images:
  "createProduct example_env [] (Some example_admin)
     (no_fields\<lparr>b_name := Some ''delta'', b_description := Some ''A fourth template'',
                 b_price := Some 3, b_category := Some ''themes'',
                 b_images := Some [\<lparr>url = ''a.png'', alt = ''a'', isPrimary = False\<rparr>,
                                   \<lparr>url = ''b.png'', alt = ''b'', isPrimary = True\<rparr>,
                                   \<lparr>url = ''c.png'', alt = ''c'', isPrimary = True\<rparr>]\<rparr>)
     [] ''64b7f3a2c19e4d0012ab34d0'' 4
   = ([\<lparr>oid = ''64b7f3a2c19e4d0012ab34d0'', name = ''delta'', slug = ''delta'',
        description = ''A fourth template'', price = 3, category = ''themes'',
        images = [\<lparr>url = ''a.png'', alt = ''a'', isPrimary = False\<rparr>,
                  \<lparr>url = ''b.png'', alt = ''b'', isPrimary = False\<rparr>,
                  \<lparr>url = ''c.png'', alt = ''c'', isPrimary = False\<rparr>],
        isActive = True, isFeatured = False,
        stats = \<lparr>views = 0, downloads = 0, sales = 0, rating = \<lparr>average = 0, count = 0\<rparr>\<rparr>,
        createdBy = ''64b7f3a2c19e4d0012ab0001'', updatedBy = None, createdAt = 4\<rparr>],
      Success 201
       (populate example_env
         \<lparr>oid = ''64b7f3a2c19e4d0012ab34d0'', name = ''delta'', slug = ''delta'',
          description = ''A fourth template'', price = 3, category = ''themes'',
          images = [\<lparr>url = ''a.png'', alt = ''a'', isPrimary = False\<rparr>,
                    \<lparr>url = ''b.png'', alt = ''b'', isPrimary = False\<rparr>,
                    \<lparr>url = ''c.png'', alt = ''c'', isPrimary = False\<rparr>],
          isActive = True, isFeatured = False,
          stats = \<lparr>views = 0, downloads = 0, sales = 0, rating = \<lparr>average = 0, count = 0\<rparr>\<rparr>,
          createdBy = ''64b7f3a2c19e4d0012ab0001'', updatedBy = None, createdAt = 4\<rparr>))"
  by (simp add: createProduct_def save_defs body_defs setter_defs error_code_def
      ensure_one_primary_def primaryImages_def enumerate_eq_zip upt_rec)

text \<open>
  C2. The hook is to leave exactly one primary image, the earliest marked one. With
  several images marked it clears the mark of every image but the one at index 0, whether
  or not that one was marked: for three images of which the second and the third are
  marked, no image is primary afterwards, and a product created with these images is
  stored with no primary image.
\<close>

theorem primary_hook_clears_all:
  "ensure_one_primary
     [\<lparr>url = ''a.png'', alt = ''a'', isPrimary = False\<rparr>,
      \<lparr>url = ''b.png'', alt = ''b'', isPrimary = True\<rparr>,
      \<lparr>url = ''c.png'', alt = ''c'', isPrimary = True\<rparr>]
   = [\<lparr>url = ''a.png'', alt = ''a'', isPrimary = False\<rparr>,
      \<lparr>url = ''b.png'', alt = ''b'', isPrimary = False\<rparr>,
      \<lparr>url = ''c.png'', alt = ''c'', isPrimary = False\<rparr>]
   \<and> map (\<lambda>p. map isPrimary (images p))
       (fst (createProduct example_env [] (Some example_admin)
          (no_fields\<lparr>b_name := Some ''delta'', b_description := Some ''A fourth template'',
                      b_price := Some 3, b_category := Some ''themes'',
                      b_images := Some [\<lparr>url = ''a.png'', alt = ''a'', isPrimary = False\<rparr>,
                                        \<lparr>url = ''b.png'', alt = ''b'', isPrimary = True\<rparr>,
                                        \<lparr>url = ''c.png'', alt = ''c'', isPrimary = True\<rparr>]\<rparr>)
          [] ''64b7f3a2c19e4d0012ab34d0'' 4))
     = [[False, False, False]]"
  by (simp add: create_with_images)
     (simp add: ensure_one_primary_def primaryImages_def enumerate_eq_zip upt_rec)

subsection \<open>A slug that is taken\<close>

text \<open>
  C8. A creation whose name gives the slug of a stored product is answered 400 with the
  message of the duplicate; an update that renames a product to the name of another is
  answered with the generic 500: the catch of PUT has no branch for the error code
  11000 that the catch of POST has.
\<close>

theorem duplicate_slug_on_update_is_500:
  "updateProduct example_env [alpha, beta] (Some example_admin) ''64b7f3a2c19e4d0012ab34ce''
     (no_fields\<lparr>b_name := Some ''alpha''\<rparr>)
   = ([alpha, beta], Failure 500 ''Server error while updating product'' [])
   \<and> createProduct example_env [alpha, beta] (Some example_admin)
       (no_fields\<lparr>b_name := Some ''alpha'', b_description := Some ''Another template'',
                   b_price := Some 3, b_category := Some ''themes''\<rparr>)
       [] ''64b7f3a2c19e4d0012ab34cf'' 3
     = ([alpha, beta], Failure 400 ''Product with this name already exists'' [])"
  by (simp add: updateProduct_def createProduct_def findById_beta save_defs body_defs setter_defs
      error_code_def)

end
